theory Spec2Isabelle
  imports Complex_Main "HOL-Library.Word"
begin

unbundle bit_operations_syntax

section \<open>VMFS blocks: the data of \<^verbatim>\<open>vmfs_block.c\<close>\<close>

text \<open>
  The file \<^verbatim>\<open>vmfs_block.c\<close> works on 32-bit block identifiers and on the four
  bitmaps of the filesystem handle. The fields it reads are \<^verbatim>\<open>fs->fbb\<close>,
  \<^verbatim>\<open>fs->sbc\<close>, \<^verbatim>\<open>fs->pbc\<close>, \<^verbatim>\<open>fs->fdc\<close>,
  \<^verbatim>\<open>bmp->bmh.items_per_bitmap_entry\<close>, \<^verbatim>\<open>entry.mdh\<close>, \<^verbatim>\<open>entry.mdh.pos\<close>
  and \<^verbatim>\<open>entry.id\<close> (named \<open>bme_id\<close> here, \<open>id\<close> being the identity function of
  HOL); \<^verbatim>\<open>pos\<close> is an \<^verbatim>\<open>off_t\<close>, the identifiers, entries and items are
  \<^verbatim>\<open>uint32_t\<close>.

  Modelled from the spec: the structures themselves are declared in
  \<^verbatim>\<open>vmfs.h\<close>, which is not among the sources. The other fields are what the
  specification says of these objects: a metadata header has lock fields
  (\<open>lck\<close>: the region is free, held by this host or held by another one), a
  bitmap entry has an allocation sub-map (\<open>bme_items\<close>, \<open>True\<close> for an allocated
  item), a bitmap header gives the number of entries (\<open>bmp_entries\<close>), a bitmap
  is one of four tables of the volume (\<open>bmp_base\<close>, where its entries start),
  and the filesystem handle knows the configured block size (\<open>block_size\<close>).
  The functions of \<^verbatim>\<open>vmfs_block.c\<close> never look at these fields.
\<close>

type_synonym u8 = "8 word"
type_synonym u32 = "32 word"

datatype lock_state = Lock_free | Lock_ours | Lock_foreign

record vmfs_metadata_hdr =
  pos :: int
  lck :: lock_state

record vmfs_bitmap_entry =
  mdh :: vmfs_metadata_hdr
  bme_id :: u32
  bme_items :: "bool list"

record vmfs_bitmap_header =
  items_per_bitmap_entry :: u32
  bmp_entries :: nat

record vmfs_bitmap =
  bmh :: vmfs_bitmap_header
  bmp_base :: int

record vmfs_fs =
  fbb :: vmfs_bitmap
  sbc :: vmfs_bitmap
  pbc :: vmfs_bitmap
  fdc :: vmfs_bitmap
  block_size :: int

subsection \<open>The macros of the headers\<close>

text \<open>
  The macros that take a block identifier apart and build one
  (\<^verbatim>\<open>VMFS_BLK_TYPE\<close>, \<^verbatim>\<open>VMFS_BLK_FB_ITEM\<close>, \<^verbatim>\<open>VMFS_BLK_SB_BUILD\<close>, ...), the
  four class tags and the two buffer sizes come from headers that are not
  among the sources. They are a parameter of every function below: a record with
  one field for each macro, under the macro's name.
\<close>

record vmfs_macros =
  VMFS_BLK_TYPE :: "u32 \<Rightarrow> u32"
  VMFS_BLK_TYPE_FB :: u32
  VMFS_BLK_TYPE_SB :: u32
  VMFS_BLK_TYPE_PB :: u32
  VMFS_BLK_TYPE_FD :: u32
  VMFS_BLK_FB_ITEM :: "u32 \<Rightarrow> u32"
  VMFS_BLK_SB_ENTRY :: "u32 \<Rightarrow> u32"
  VMFS_BLK_SB_ITEM :: "u32 \<Rightarrow> u32"
  VMFS_BLK_PB_ENTRY :: "u32 \<Rightarrow> u32"
  VMFS_BLK_PB_ITEM :: "u32 \<Rightarrow> u32"
  VMFS_BLK_FD_ENTRY :: "u32 \<Rightarrow> u32"
  VMFS_BLK_FD_ITEM :: "u32 \<Rightarrow> u32"
  VMFS_BLK_FB_BUILD :: "u32 \<Rightarrow> u32"
  VMFS_BLK_SB_BUILD :: "u32 \<Rightarrow> u32 \<Rightarrow> u32"
  VMFS_BLK_PB_BUILD :: "u32 \<Rightarrow> u32 \<Rightarrow> u32"
  VMFS_BLK_FD_BUILD :: "u32 \<Rightarrow> u32 \<Rightarrow> u32"
  M_DIO_BLK_SIZE :: nat
  VMFS_BITMAP_ENTRY_SIZE :: nat

definition known_classes :: "vmfs_macros \<Rightarrow> u32 set" where
  "known_classes h =
     {VMFS_BLK_TYPE_FB h, VMFS_BLK_TYPE_SB h, VMFS_BLK_TYPE_PB h, VMFS_BLK_TYPE_FD h}"

subsection \<open>The functions of the other modules\<close>

text \<open>
  \<^verbatim>\<open>vmfs_block.c\<close> calls the bitmap module, the metadata lock and the volume
  I/O; none of them is among the sources. They are the second parameter: a
  record with one field for each function called, over a volume of any type
  \<open>'d\<close>. Each field takes the volume (when the function reads or writes it) and
  the arguments of the C call, and returns the C return value, the contents of
  the objects it was given a pointer to, and the volume after the call:

  \<^item> \<^verbatim>\<open>vmfs_bitmap_get_entry(bmp,entry,item,&e)\<close> reads: return value and \<open>e\<close>;
  \<^item> \<^verbatim>\<open>vmfs_bitmap_get_item_status(&bmh,&e,entry,item)\<close>: return value;
  \<^item> \<^verbatim>\<open>vmfs_bitmap_set_item_status(&bmh,&e,entry,item,status)\<close>: return value and \<open>e\<close>;
  \<^item> \<^verbatim>\<open>vmfs_bitmap_find_free_items(bmp,n,&e)\<close>: return value, \<open>e\<close>, volume;
  \<^item> \<^verbatim>\<open>vmfs_bitmap_alloc_item(&e,&item)\<close>: return value, \<open>e\<close> and \<open>item\<close>;
  \<^item> \<^verbatim>\<open>vmfs_bme_update(fs,&e)\<close>: volume (the caller drops the return value);
  \<^item> \<^verbatim>\<open>vmfs_metadata_lock(fs,pos,buf,buf_len,&mdh)\<close>: return value, \<open>mdh\<close>,
    volume (\<open>buf\<close> is scratch memory that the caller never reads: only its
    length is passed);
  \<^item> \<^verbatim>\<open>vmfs_metadata_unlock(fs,&mdh)\<close>: volume (the caller drops the return
    value and never reads \<open>mdh\<close> again);
  \<^item> \<^verbatim>\<open>vmfs_fs_write(fs,blk,pos,buf,len)\<close>: return value and volume.
\<close>

record 'd vmfs_calls =
  vmfs_bitmap_get_entry ::
    "'d \<Rightarrow> vmfs_bitmap \<Rightarrow> u32 \<Rightarrow> u32 \<Rightarrow> int \<times> vmfs_bitmap_entry"
  vmfs_bitmap_get_item_status ::
    "vmfs_bitmap_header \<Rightarrow> vmfs_bitmap_entry \<Rightarrow> u32 \<Rightarrow> u32 \<Rightarrow> int"
  vmfs_bitmap_set_item_status ::
    "vmfs_bitmap_header \<Rightarrow> vmfs_bitmap_entry \<Rightarrow> u32 \<Rightarrow> u32 \<Rightarrow> int \<Rightarrow> int \<times> vmfs_bitmap_entry"
  vmfs_bitmap_find_free_items ::
    "'d \<Rightarrow> vmfs_bitmap \<Rightarrow> u32 \<Rightarrow> int \<times> vmfs_bitmap_entry \<times> 'd"
  vmfs_bitmap_alloc_item ::
    "vmfs_bitmap_entry \<Rightarrow> int \<times> vmfs_bitmap_entry \<times> u32"
  vmfs_bme_update :: "'d \<Rightarrow> vmfs_fs \<Rightarrow> vmfs_bitmap_entry \<Rightarrow> 'd"
  vmfs_metadata_lock ::
    "'d \<Rightarrow> vmfs_fs \<Rightarrow> int \<Rightarrow> nat \<Rightarrow> vmfs_metadata_hdr \<Rightarrow> int \<times> vmfs_metadata_hdr \<times> 'd"
  vmfs_metadata_unlock :: "'d \<Rightarrow> vmfs_fs \<Rightarrow> vmfs_metadata_hdr \<Rightarrow> 'd"
  vmfs_fs_write :: "'d \<Rightarrow> vmfs_fs \<Rightarrow> u32 \<Rightarrow> int \<Rightarrow> u8 list \<Rightarrow> int \<times> 'd"

subsection \<open>The state: the volume and the calls made so far\<close>

text \<open>
  A call of another module is an event. The state is the volume together with
  the list of the events so far, oldest first; every call that
  \<^verbatim>\<open>vmfs_block.c\<close> makes appends its event. What the file calls, how often and in
  which order can then be read from the state a function returns.
\<close>

datatype event =
    Ev_get_entry vmfs_bitmap u32 u32
  | Ev_get_item_status vmfs_bitmap_entry u32 u32
  | Ev_set_item_status vmfs_bitmap_entry u32 u32 int
  | Ev_find_free_items vmfs_bitmap u32
  | Ev_alloc_item vmfs_bitmap_entry
  | Ev_bme_update vmfs_bitmap_entry
  | Ev_lock int
  | Ev_unlock vmfs_metadata_hdr
  | Ev_fs_write u32 int "u8 list"

record 'd sys =
  vol :: 'd
  trace :: "event list"

definition log_event :: "event \<Rightarrow> 'd sys \<Rightarrow> 'd sys" where
  "log_event ev s = s\<lparr>trace := trace s @ [ev]\<rparr>"

definition call_get_entry ::
  "'d vmfs_calls \<Rightarrow> vmfs_bitmap \<Rightarrow> u32 \<Rightarrow> u32 \<Rightarrow> 'd sys \<Rightarrow> int \<times> vmfs_bitmap_entry \<times> 'd sys" where
  "call_get_entry cb bmp entry item s =
     (case vmfs_bitmap_get_entry cb (vol s) bmp entry item of
        (r, e) \<Rightarrow> (r, e, log_event (Ev_get_entry bmp entry item) s))"

definition call_get_item_status ::
  "'d vmfs_calls \<Rightarrow> vmfs_bitmap_header \<Rightarrow> vmfs_bitmap_entry \<Rightarrow> u32 \<Rightarrow> u32 \<Rightarrow> 'd sys \<Rightarrow> int \<times> 'd sys" where
  "call_get_item_status cb bh e entry item s =
     (vmfs_bitmap_get_item_status cb bh e entry item,
      log_event (Ev_get_item_status e entry item) s)"

definition call_set_item_status ::
  "'d vmfs_calls \<Rightarrow> vmfs_bitmap_header \<Rightarrow> vmfs_bitmap_entry \<Rightarrow> u32 \<Rightarrow> u32 \<Rightarrow> int \<Rightarrow> 'd sys
     \<Rightarrow> int \<times> vmfs_bitmap_entry \<times> 'd sys" where
  "call_set_item_status cb bh e entry item status s =
     (case vmfs_bitmap_set_item_status cb bh e entry item status of
        (r, e') \<Rightarrow> (r, e', log_event (Ev_set_item_status e entry item status) s))"

definition call_find_free_items ::
  "'d vmfs_calls \<Rightarrow> vmfs_bitmap \<Rightarrow> u32 \<Rightarrow> 'd sys \<Rightarrow> int \<times> vmfs_bitmap_entry \<times> 'd sys" where
  "call_find_free_items cb bmp n s =
     (case vmfs_bitmap_find_free_items cb (vol s) bmp n of
        (r, e, v) \<Rightarrow> (r, e, log_event (Ev_find_free_items bmp n) (s\<lparr>vol := v\<rparr>)))"

definition call_alloc_item ::
  "'d vmfs_calls \<Rightarrow> vmfs_bitmap_entry \<Rightarrow> 'd sys \<Rightarrow> int \<times> vmfs_bitmap_entry \<times> u32 \<times> 'd sys" where
  "call_alloc_item cb e s =
     (case vmfs_bitmap_alloc_item cb e of
        (r, e', item) \<Rightarrow> (r, e', item, log_event (Ev_alloc_item e) s))"

definition call_bme_update :: "'d vmfs_calls \<Rightarrow> vmfs_fs \<Rightarrow> vmfs_bitmap_entry \<Rightarrow> 'd sys \<Rightarrow> 'd sys" where
  "call_bme_update cb fs e s =
     log_event (Ev_bme_update e) (s\<lparr>vol := vmfs_bme_update cb (vol s) fs e\<rparr>)"

definition call_metadata_lock ::
  "'d vmfs_calls \<Rightarrow> vmfs_fs \<Rightarrow> int \<Rightarrow> nat \<Rightarrow> vmfs_metadata_hdr \<Rightarrow> 'd sys
     \<Rightarrow> int \<times> vmfs_metadata_hdr \<times> 'd sys" where
  "call_metadata_lock cb fs p buf_len m s =
     (case vmfs_metadata_lock cb (vol s) fs p buf_len m of
        (r, m', v) \<Rightarrow> (r, m', log_event (Ev_lock p) (s\<lparr>vol := v\<rparr>)))"

definition call_metadata_unlock ::
  "'d vmfs_calls \<Rightarrow> vmfs_fs \<Rightarrow> vmfs_metadata_hdr \<Rightarrow> 'd sys \<Rightarrow> 'd sys" where
  "call_metadata_unlock cb fs m s =
     log_event (Ev_unlock m) (s\<lparr>vol := vmfs_metadata_unlock cb (vol s) fs m\<rparr>)"

definition call_fs_write ::
  "'d vmfs_calls \<Rightarrow> vmfs_fs \<Rightarrow> u32 \<Rightarrow> int \<Rightarrow> u8 list \<Rightarrow> 'd sys \<Rightarrow> int \<times> 'd sys" where
  "call_fs_write cb fs blk p buf s =
     (case vmfs_fs_write cb (vol s) fs blk p buf of
        (r, v) \<Rightarrow> (r, log_event (Ev_fs_write blk p buf) (s\<lparr>vol := v\<rparr>)))"

section \<open>The functions of \<^verbatim>\<open>vmfs_block.c\<close>\<close>

text \<open>
  Every function returns the C return value: \<open>-1\<close> is the one error value of
  the file, whatever the cause. A \<^verbatim>\<open>switch\<close> is the chain of comparisons with
  its case labels, in the order of the source.

  \<^verbatim>\<open>vmfs_block_get_bitmap_info\<close> writes through three pointers. The model takes
  what the three objects hold before the call and returns what they hold after
  it.
\<close>

type_synonym bitmap_info = "vmfs_bitmap \<times> u32 \<times> u32"

definition vmfs_block_get_bitmap_info ::
  "vmfs_macros \<Rightarrow> vmfs_fs \<Rightarrow> u32 \<Rightarrow> bitmap_info \<Rightarrow> int \<times> bitmap_info" where
  "vmfs_block_get_bitmap_info h fs blk_id outs =
     (let blk_type = VMFS_BLK_TYPE h blk_id in
      if blk_type = VMFS_BLK_TYPE_FB h then
        (0, (fbb fs, 0, VMFS_BLK_FB_ITEM h blk_id))
      else if blk_type = VMFS_BLK_TYPE_SB h then
        (0, (sbc fs, VMFS_BLK_SB_ENTRY h blk_id, VMFS_BLK_SB_ITEM h blk_id))
      else if blk_type = VMFS_BLK_TYPE_PB h then
        (0, (pbc fs, VMFS_BLK_PB_ENTRY h blk_id, VMFS_BLK_PB_ITEM h blk_id))
      else if blk_type = VMFS_BLK_TYPE_FD h then
        (0, (fdc fs, VMFS_BLK_FD_ENTRY h blk_id, VMFS_BLK_FD_ITEM h blk_id))
      else (-1, outs))"

text \<open>
  The callers declare \<^verbatim>\<open>bmp\<close>, \<^verbatim>\<open>blk_entry\<close> and \<^verbatim>\<open>blk_item\<close> without a
  value and read them only after a call that returned 0, which has written all
  three. \<open>locals0\<close> stands for what they hold before.
\<close>

definition locals0 :: "vmfs_fs \<Rightarrow> bitmap_info" where
  "locals0 fs = (fbb fs, 0, 0)"

definition vmfs_block_get_status ::
  "'d vmfs_calls \<Rightarrow> vmfs_macros \<Rightarrow> vmfs_fs \<Rightarrow> u32 \<Rightarrow> 'd sys \<Rightarrow> int \<times> 'd sys" where
  "vmfs_block_get_status cb h fs blk_id s =
     (case vmfs_block_get_bitmap_info h fs blk_id (locals0 fs) of
        (r0, bmp, blk_entry, blk_item) \<Rightarrow>
          if r0 = -1 then (-1, s)
          else
            (case call_get_entry cb bmp blk_entry blk_item s of
               (r1, entry, s1) \<Rightarrow>
                 if r1 = -1 then (-1, s1)
                 else call_get_item_status cb (bmh bmp) entry blk_entry blk_item s1))"

text \<open>
  The test after the lock is \<^verbatim>\<open>!vmfs_metadata_lock(...) == -1\<close>: C applies
  \<^verbatim>\<open>!\<close> first, so the value compared with \<open>-1\<close> is 1 when the lock returned 0
  and 0 otherwise.
\<close>

definition c_not :: "int \<Rightarrow> int" where
  "c_not x = (if x = 0 then 1 else 0)"

definition vmfs_block_set_status ::
  "'d vmfs_calls \<Rightarrow> vmfs_macros \<Rightarrow> vmfs_fs \<Rightarrow> u32 \<Rightarrow> int \<Rightarrow> 'd sys \<Rightarrow> int \<times> 'd sys" where
  "vmfs_block_set_status cb h fs blk_id status s =
     (case vmfs_block_get_bitmap_info h fs blk_id (locals0 fs) of
        (r0, bmp, blk_entry, blk_item) \<Rightarrow>
          if r0 = -1 then (-1, s)
          else
            (case call_get_entry cb bmp blk_entry blk_item s of
               (r1, entry1, s1) \<Rightarrow>
                 if r1 = -1 then (-1, s1)
                 else
                   (case call_metadata_lock cb fs (pos (mdh entry1))
                           (VMFS_BITMAP_ENTRY_SIZE h) (mdh entry1) s1 of
                      (r2, m2, s2) \<Rightarrow>
                        if c_not r2 = -1 then (-1, s2)
                        else
                          (case call_set_item_status cb (bmh bmp) (entry1\<lparr>mdh := m2\<rparr>)
                                  blk_entry blk_item status s2 of
                             (r3, entry3, s3) \<Rightarrow>
                               if r3 = -1 then
                                 (-1, call_metadata_unlock cb fs (mdh entry3) s3)
                               else
                                 (0, call_metadata_unlock cb fs (mdh entry3)
                                       (call_bme_update cb fs entry3 s3))))))"

definition vmfs_block_alloc_specified ::
  "'d vmfs_calls \<Rightarrow> vmfs_macros \<Rightarrow> vmfs_fs \<Rightarrow> u32 \<Rightarrow> 'd sys \<Rightarrow> int \<times> 'd sys" where
  "vmfs_block_alloc_specified cb h fs blk_id s = vmfs_block_set_status cb h fs blk_id 1 s"

definition vmfs_block_free ::
  "'d vmfs_calls \<Rightarrow> vmfs_macros \<Rightarrow> vmfs_fs \<Rightarrow> u32 \<Rightarrow> 'd sys \<Rightarrow> int \<times> 'd sys" where
  "vmfs_block_free cb h fs blk_id s = vmfs_block_set_status cb h fs blk_id 0 s"

text \<open>
  \<^verbatim>\<open>vmfs_block_alloc\<close> has two switches on \<^verbatim>\<open>blk_type\<close>. The first selects
  the bitmap, and its \<^verbatim>\<open>default\<close> returns \<open>-1\<close>: \<open>alloc_bitmap\<close> is \<open>None\<close> there.
  The second builds the identifier and has no \<^verbatim>\<open>default\<close>: when no label
  matches, \<^verbatim>\<open>*blk_id\<close> keeps what it held, which is the last argument of
  \<open>alloc_blk_id\<close>. The multiplication and the addition are those of
  \<^verbatim>\<open>uint32_t\<close>. The model takes what \<^verbatim>\<open>*blk_id\<close> holds before the call and
  returns what it holds after it.
\<close>

definition alloc_bitmap :: "vmfs_macros \<Rightarrow> vmfs_fs \<Rightarrow> u32 \<Rightarrow> vmfs_bitmap option" where
  "alloc_bitmap h fs blk_type =
     (if blk_type = VMFS_BLK_TYPE_FB h then Some (fbb fs)
      else if blk_type = VMFS_BLK_TYPE_SB h then Some (sbc fs)
      else if blk_type = VMFS_BLK_TYPE_PB h then Some (pbc fs)
      else if blk_type = VMFS_BLK_TYPE_FD h then Some (fdc fs)
      else None)"

definition alloc_blk_id ::
  "vmfs_macros \<Rightarrow> vmfs_bitmap \<Rightarrow> u32 \<Rightarrow> vmfs_bitmap_entry \<Rightarrow> u32 \<Rightarrow> u32 \<Rightarrow> u32" where
  "alloc_blk_id h bmp blk_type entry item blk_id =
     (if blk_type = VMFS_BLK_TYPE_FB h then
        (let addr = bme_id entry * items_per_bitmap_entry (bmh bmp) + item
         in VMFS_BLK_FB_BUILD h addr)
      else if blk_type = VMFS_BLK_TYPE_SB h then VMFS_BLK_SB_BUILD h (bme_id entry) item
      else if blk_type = VMFS_BLK_TYPE_PB h then VMFS_BLK_PB_BUILD h (bme_id entry) item
      else if blk_type = VMFS_BLK_TYPE_FD h then VMFS_BLK_FD_BUILD h (bme_id entry) item
      else blk_id)"

definition vmfs_block_alloc ::
  "'d vmfs_calls \<Rightarrow> vmfs_macros \<Rightarrow> vmfs_fs \<Rightarrow> u32 \<Rightarrow> u32 \<Rightarrow> 'd sys \<Rightarrow> int \<times> u32 \<times> 'd sys" where
  "vmfs_block_alloc cb h fs blk_type blk_id s =
     (case alloc_bitmap h fs blk_type of
        None \<Rightarrow> (-1, blk_id, s)
      | Some bmp \<Rightarrow>
          (case call_find_free_items cb bmp 1 s of
             (r1, entry1, s1) \<Rightarrow>
               if r1 = -1 then (-1, blk_id, s1)
               else
                 (case call_alloc_item cb entry1 s1 of
                    (r2, entry2, item, s2) \<Rightarrow>
                      if r2 = -1 then
                        (-1, blk_id, call_metadata_unlock cb fs (mdh entry2) s2)
                      else
                        (0, alloc_blk_id h bmp blk_type entry2 item blk_id,
                         call_metadata_unlock cb fs (mdh entry2)
                           (call_bme_update cb fs entry2 s2)))))"

text \<open>
  Modelled from the spec: \<^verbatim>\<open>vmfs_fs_get_blocksize\<close> is not among the sources;
  the filesystem handle exposes the configured block size.
\<close>

definition vmfs_fs_get_blocksize :: "vmfs_fs \<Rightarrow> int" where
  "vmfs_fs_get_blocksize fs = block_size fs"

text \<open>
  The loop of \<^verbatim>\<open>vmfs_block_zeroize_fb\<close> ends only if \<^verbatim>\<open>pos\<close> grows, that is
  if the chunk is not empty: it is a partial function, and \<open>None\<close> is a run that
  never returns. \<^verbatim>\<open>pos\<close> and \<^verbatim>\<open>len\<close> are \<^verbatim>\<open>off_t\<close>, modelled as integers;
  \<^verbatim>\<open>buf\<close> is the buffer of \<^verbatim>\<open>M_DIO_BLK_SIZE\<close> bytes that \<^verbatim>\<open>memset\<close> has
  filled with zeros, and \<^verbatim>\<open>buf_len\<close> is its length.
\<close>

partial_function (option) zeroize_loop ::
  "'d vmfs_calls \<Rightarrow> vmfs_fs \<Rightarrow> u32 \<Rightarrow> u8 list \<Rightarrow> int \<Rightarrow> int \<Rightarrow> 'd sys \<Rightarrow> (int \<times> 'd sys) option" where
  "zeroize_loop cb fs blk_item buf len p s =
     (if p < len then
        (case call_fs_write cb fs blk_item p buf s of
           (r, s') \<Rightarrow>
             if r \<noteq> int (length buf) then Some (-1, s')
             else zeroize_loop cb fs blk_item buf len (p + int (length buf)) s')
      else Some (0, s))"

definition vmfs_block_zeroize_fb ::
  "'d vmfs_calls \<Rightarrow> vmfs_macros \<Rightarrow> vmfs_fs \<Rightarrow> u32 \<Rightarrow> 'd sys \<Rightarrow> (int \<times> 'd sys) option" where
  "vmfs_block_zeroize_fb cb h fs blk_id s =
     (if VMFS_BLK_TYPE h blk_id \<noteq> VMFS_BLK_TYPE_FB h then Some (-1, s)
      else
        (let buf = replicate (M_DIO_BLK_SIZE h) (0 :: u8);
             blk_item = VMFS_BLK_FB_ITEM h blk_id;
             len = vmfs_fs_get_blocksize fs
         in zeroize_loop cb fs blk_item buf len 0 s))"

section \<open>Reading the events\<close>

text \<open>
  \<open>new_events\<close> are the events that a call added to the state, \<open>unlocks\<close>
  the metadata headers that an event list unlocks, in order, and
  \<open>written_bytes\<close> the number of bytes that its writes were asked to write.
\<close>

definition new_events :: "'d sys \<Rightarrow> 'd sys \<Rightarrow> event list" where
  "new_events s s' = drop (length (trace s)) (trace s')"

fun unlocks :: "event list \<Rightarrow> vmfs_metadata_hdr list" where
  "unlocks [] = []"
| "unlocks (Ev_unlock m # es) = m # unlocks es"
| "unlocks (_ # es) = unlocks es"

fun written_bytes :: "event list \<Rightarrow> nat" where
  "written_bytes [] = 0"
| "written_bytes (Ev_fs_write blk p buf # es) = length buf + written_bytes es"
| "written_bytes (_ # es) = written_bytes es"

text \<open>
  A run of \<open>n\<close> writes of the same buffer into one block, the first at \<open>p\<close> and
  each next one a buffer further: \<open>writes_ok\<close> says that every one of them
  returns the length of the buffer, \<open>vol_after\<close> is the volume they leave and
  \<open>write_events\<close> are their events.
\<close>

fun writes_ok :: "'d vmfs_calls \<Rightarrow> vmfs_fs \<Rightarrow> u32 \<Rightarrow> u8 list \<Rightarrow> int \<Rightarrow> nat \<Rightarrow> 'd \<Rightarrow> bool" where
  "writes_ok cb fs blk buf p 0 v = True"
| "writes_ok cb fs blk buf p (Suc n) v =
     (fst (vmfs_fs_write cb v fs blk p buf) = int (length buf) \<and>
      writes_ok cb fs blk buf (p + int (length buf)) n (snd (vmfs_fs_write cb v fs blk p buf)))"

fun vol_after :: "'d vmfs_calls \<Rightarrow> vmfs_fs \<Rightarrow> u32 \<Rightarrow> u8 list \<Rightarrow> int \<Rightarrow> nat \<Rightarrow> 'd \<Rightarrow> 'd" where
  "vol_after cb fs blk buf p 0 v = v"
| "vol_after cb fs blk buf p (Suc n) v =
     vol_after cb fs blk buf (p + int (length buf)) n (snd (vmfs_fs_write cb v fs blk p buf))"

fun write_events :: "u32 \<Rightarrow> u8 list \<Rightarrow> int \<Rightarrow> nat \<Rightarrow> event list" where
  "write_events blk buf p 0 = []"
| "write_events blk buf p (Suc n) =
     Ev_fs_write blk p buf # write_events blk buf (p + int (length buf)) n"

text \<open>The number of chunks of \<open>c\<close> bytes that cover \<open>len\<close> bytes.\<close>

definition chunks :: "int \<Rightarrow> nat \<Rightarrow> nat" where
  "chunks len c = nat ((len + int c - 1) div int c)"

section \<open>What the specification says of the absent parts\<close>

subsection \<open>Coordinates and builders\<close>

text \<open>
  The coordinates of a block: the flat index of a File Block, or the entry and
  the item of a Sub-Block, a Pointer Block or a File Descriptor. \<open>build\<close> is
  the builder macro of the class and \<open>class_tag\<close> its tag; \<open>decoded\<close> says
  that the macros of the class read the coordinates from an identifier.
\<close>

datatype coords = FB u32 | SB u32 u32 | PB u32 u32 | FD u32 u32

fun build :: "vmfs_macros \<Rightarrow> coords \<Rightarrow> u32" where
  "build h (FB a) = VMFS_BLK_FB_BUILD h a"
| "build h (SB e i) = VMFS_BLK_SB_BUILD h e i"
| "build h (PB e i) = VMFS_BLK_PB_BUILD h e i"
| "build h (FD e i) = VMFS_BLK_FD_BUILD h e i"

fun class_tag :: "vmfs_macros \<Rightarrow> coords \<Rightarrow> u32" where
  "class_tag h (FB a) = VMFS_BLK_TYPE_FB h"
| "class_tag h (SB e i) = VMFS_BLK_TYPE_SB h"
| "class_tag h (PB e i) = VMFS_BLK_TYPE_PB h"
| "class_tag h (FD e i) = VMFS_BLK_TYPE_FD h"

fun decoded :: "vmfs_macros \<Rightarrow> coords \<Rightarrow> u32 \<Rightarrow> bool" where
  "decoded h (FB a) b = (VMFS_BLK_FB_ITEM h b = a)"
| "decoded h (SB e i) b = (VMFS_BLK_SB_ENTRY h b = e \<and> VMFS_BLK_SB_ITEM h b = i)"
| "decoded h (PB e i) b = (VMFS_BLK_PB_ENTRY h b = e \<and> VMFS_BLK_PB_ITEM h b = i)"
| "decoded h (FD e i) b = (VMFS_BLK_FD_ENTRY h b = e \<and> VMFS_BLK_FD_ITEM h b = i)"

text \<open>
  Modelled from the spec: the header with the macros is absent, so what the
  specification says of them is stated as properties of the parameter. The four
  tags are different, \<open>tags_distinct\<close> (they are the labels of one
  \<^verbatim>\<open>switch\<close>). The macros encode the coordinates \<open>c\<close> without loss,
  \<open>in_range\<close>, when the identifier built from \<open>c\<close> carries the tag of the class
  and the decoders of the class read \<open>c\<close> back from it. The builders keep the
  tag, \<open>builders_keep_tag\<close>, when an identifier built for a class carries the
  tag of that class whatever the coordinates.
\<close>

definition tags_distinct :: "vmfs_macros \<Rightarrow> bool" where
  "tags_distinct h =
     distinct [VMFS_BLK_TYPE_FB h, VMFS_BLK_TYPE_SB h, VMFS_BLK_TYPE_PB h, VMFS_BLK_TYPE_FD h]"

definition in_range :: "vmfs_macros \<Rightarrow> coords \<Rightarrow> bool" where
  "in_range h c =
     (VMFS_BLK_TYPE h (build h c) = class_tag h c \<and> decoded h c (build h c))"

definition builders_keep_tag :: "vmfs_macros \<Rightarrow> bool" where
  "builders_keep_tag h =
     (\<forall>c. VMFS_BLK_TYPE h (build h c) = class_tag h c)"

text \<open>
  Modelled from the spec: one layout that fits what the specification says of a
  block identifier, a 32-bit value with the class tag in the top bits and the
  coordinates of the class in the remainder, identifier 0 being the File
  Descriptor of entry 0 and item 0. The specification gives no widths; here
  the tag is the top 3 bits (File Descriptor 0, File Block 1, Sub-Block 2,
  Pointer Block 3, the tags 4 to 7 undefined), the flat index of a File Block
  is the low 29 bits, and in the other classes the entry is the low 16 bits
  and the item the 13 bits above them. The chunk of the zeroizer is 512 bytes,
  as in the scenario of the specification.
\<close>

definition pack_id :: "u32 \<Rightarrow> u32 \<Rightarrow> u32 \<Rightarrow> u32" where
  "pack_id tag entry item =
     push_bit 29 tag OR push_bit 16 (take_bit 13 item) OR take_bit 16 entry"

definition pack_fb :: "u32 \<Rightarrow> u32" where
  "pack_fb a = push_bit 29 1 OR take_bit 29 a"

definition spec_macros :: vmfs_macros where
  "spec_macros =
     \<lparr> VMFS_BLK_TYPE = drop_bit 29,
       VMFS_BLK_TYPE_FB = 1,
       VMFS_BLK_TYPE_SB = 2,
       VMFS_BLK_TYPE_PB = 3,
       VMFS_BLK_TYPE_FD = 0,
       VMFS_BLK_FB_ITEM = take_bit 29,
       VMFS_BLK_SB_ENTRY = take_bit 16,
       VMFS_BLK_SB_ITEM = (\<lambda>b. take_bit 13 (drop_bit 16 b)),
       VMFS_BLK_PB_ENTRY = take_bit 16,
       VMFS_BLK_PB_ITEM = (\<lambda>b. take_bit 13 (drop_bit 16 b)),
       VMFS_BLK_FD_ENTRY = take_bit 16,
       VMFS_BLK_FD_ITEM = (\<lambda>b. take_bit 13 (drop_bit 16 b)),
       VMFS_BLK_FB_BUILD = pack_fb,
       VMFS_BLK_SB_BUILD = pack_id 2,
       VMFS_BLK_PB_BUILD = pack_id 3,
       VMFS_BLK_FD_BUILD = pack_id 0,
       M_DIO_BLK_SIZE = 512,
       VMFS_BITMAP_ENTRY_SIZE = 1024 \<rparr>"

subsection \<open>Identifiers as bit fields\<close>

text \<open>
  Modelled from the spec: a block identifier is a 32-bit value that holds the
  class tag and the coordinates of the class, each in bits of its own. The
  specification gives neither the widths nor the positions nor the values of
  the tags, so they are parameters here: a \<open>bit_field\<close> is \<open>f_width\<close> bits
  starting at bit \<open>f_shift\<close>, \<open>get_field\<close> reads it from an identifier and
  \<open>put_field\<close> places a value in it, cut to the width of the field. A field is
  inside the identifier, \<open>field_inside\<close>, when it ends at bit 32 or below; two
  fields are apart, \<open>fields_apart\<close>, when one ends where the other starts or
  below; a value fits a field, \<open>fits\<close>, when it is below 2 to the width.
\<close>

record bit_field =
  f_shift :: nat
  f_width :: nat

definition get_field :: "bit_field \<Rightarrow> u32 \<Rightarrow> u32" where
  "get_field f b = take_bit (f_width f) (drop_bit (f_shift f) b)"

definition put_field :: "bit_field \<Rightarrow> u32 \<Rightarrow> u32" where
  "put_field f x = push_bit (f_shift f) (take_bit (f_width f) x)"

definition field_inside :: "bit_field \<Rightarrow> bool" where
  "field_inside f = (f_shift f + f_width f \<le> 32)"

definition fields_apart :: "bit_field \<Rightarrow> bit_field \<Rightarrow> bool" where
  "fields_apart f g =
     (f_shift f + f_width f \<le> f_shift g \<or> f_shift g + f_width g \<le> f_shift f)"

definition fits :: "bit_field \<Rightarrow> u32 \<Rightarrow> bool" where
  "fits f x = (unat x < 2 ^ f_width f)"

text \<open>
  Modelled from the spec: a layout gives the field of the tag, the four tags,
  the field of the flat index of a File Block and, for each of the other three
  classes, the field of the entry and the field of the item.
  \<open>layout_macros\<close> is the header of a layout: the tag macro and the decoders
  read their fields, and a builder joins the tag of its class and the
  coordinates, each placed in its field. A layout is well formed, \<open>layout_ok\<close>,
  when all fields are inside the identifier, the four tags are different and
  fit the field of the tag, the field of the tag is apart from every field of
  a coordinate, and the entry and the item of a class are apart. The
  coordinates in range, \<open>layout_range\<close>, are those that fit their fields.
\<close>

record blk_layout =
  tag_field :: bit_field
  tag_fb :: u32
  tag_sb :: u32
  tag_pb :: u32
  tag_fd :: u32
  fb_item :: bit_field
  sb_entry :: bit_field
  sb_item :: bit_field
  pb_entry :: bit_field
  pb_item :: bit_field
  fd_entry :: bit_field
  fd_item :: bit_field

definition pack1 :: "blk_layout \<Rightarrow> u32 \<Rightarrow> bit_field \<Rightarrow> u32 \<Rightarrow> u32" where
  "pack1 L t f x = put_field (tag_field L) t OR put_field f x"

definition pack2 ::
  "blk_layout \<Rightarrow> u32 \<Rightarrow> bit_field \<Rightarrow> u32 \<Rightarrow> bit_field \<Rightarrow> u32 \<Rightarrow> u32" where
  "pack2 L t f x g y = put_field (tag_field L) t OR put_field f x OR put_field g y"

definition layout_macros :: "blk_layout \<Rightarrow> nat \<Rightarrow> nat \<Rightarrow> vmfs_macros" where
  "layout_macros L dio es =
     \<lparr> VMFS_BLK_TYPE = get_field (tag_field L),
       VMFS_BLK_TYPE_FB = tag_fb L,
       VMFS_BLK_TYPE_SB = tag_sb L,
       VMFS_BLK_TYPE_PB = tag_pb L,
       VMFS_BLK_TYPE_FD = tag_fd L,
       VMFS_BLK_FB_ITEM = get_field (fb_item L),
       VMFS_BLK_SB_ENTRY = get_field (sb_entry L),
       VMFS_BLK_SB_ITEM = get_field (sb_item L),
       VMFS_BLK_PB_ENTRY = get_field (pb_entry L),
       VMFS_BLK_PB_ITEM = get_field (pb_item L),
       VMFS_BLK_FD_ENTRY = get_field (fd_entry L),
       VMFS_BLK_FD_ITEM = get_field (fd_item L),
       VMFS_BLK_FB_BUILD = (\<lambda>a. pack1 L (tag_fb L) (fb_item L) a),
       VMFS_BLK_SB_BUILD = (\<lambda>e i. pack2 L (tag_sb L) (sb_entry L) e (sb_item L) i),
       VMFS_BLK_PB_BUILD = (\<lambda>e i. pack2 L (tag_pb L) (pb_entry L) e (pb_item L) i),
       VMFS_BLK_FD_BUILD = (\<lambda>e i. pack2 L (tag_fd L) (fd_entry L) e (fd_item L) i),
       M_DIO_BLK_SIZE = dio,
       VMFS_BITMAP_ENTRY_SIZE = es \<rparr>"

definition coord_fields :: "blk_layout \<Rightarrow> bit_field list" where
  "coord_fields L =
     [fb_item L, sb_entry L, sb_item L, pb_entry L, pb_item L, fd_entry L, fd_item L]"

definition layout_ok :: "blk_layout \<Rightarrow> bool" where
  "layout_ok L =
     (field_inside (tag_field L) \<and>
      distinct [tag_fb L, tag_sb L, tag_pb L, tag_fd L] \<and>
      list_all (fits (tag_field L)) [tag_fb L, tag_sb L, tag_pb L, tag_fd L] \<and>
      list_all field_inside (coord_fields L) \<and>
      list_all (fields_apart (tag_field L)) (coord_fields L) \<and>
      fields_apart (sb_entry L) (sb_item L) \<and>
      fields_apart (pb_entry L) (pb_item L) \<and>
      fields_apart (fd_entry L) (fd_item L))"

fun layout_range :: "blk_layout \<Rightarrow> coords \<Rightarrow> bool" where
  "layout_range L (FB a) = fits (fb_item L) a"
| "layout_range L (SB e i) = (fits (sb_entry L) e \<and> fits (sb_item L) i)"
| "layout_range L (PB e i) = (fits (pb_entry L) e \<and> fits (pb_item L) i)"
| "layout_range L (FD e i) = (fits (fd_entry L) e \<and> fits (fd_item L) i)"

text \<open>
  Modelled from the spec: the layout above as a layout of this family, the tag
  in the top 3 bits.
\<close>

definition spec_layout :: blk_layout where
  "spec_layout =
     \<lparr> tag_field = \<lparr> f_shift = 29, f_width = 3 \<rparr>,
       tag_fb = 1, tag_sb = 2, tag_pb = 3, tag_fd = 0,
       fb_item = \<lparr> f_shift = 0, f_width = 29 \<rparr>,
       sb_entry = \<lparr> f_shift = 0, f_width = 16 \<rparr>,
       sb_item = \<lparr> f_shift = 16, f_width = 13 \<rparr>,
       pb_entry = \<lparr> f_shift = 0, f_width = 16 \<rparr>,
       pb_item = \<lparr> f_shift = 16, f_width = 13 \<rparr>,
       fd_entry = \<lparr> f_shift = 0, f_width = 16 \<rparr>,
       fd_item = \<lparr> f_shift = 16, f_width = 13 \<rparr> \<rparr>"

subsection \<open>The volume, the bitmap codec, the lock and the writes\<close>

text \<open>
  Modelled from the spec: the volume. Its metadata area holds the bitmap
  entries, each at its position; entry \<open>k\<close> of a bitmap is at the position
  \<open>bmp_base + k\<close>. Its data area holds the bytes of each file block.
\<close>

record volume =
  meta :: "int \<Rightarrow> vmfs_bitmap_entry option"
  blocks :: "u32 \<Rightarrow> u8 list"

definition entry_pos :: "vmfs_bitmap \<Rightarrow> nat \<Rightarrow> int" where
  "entry_pos bmp k = bmp_base bmp + int k"

definition no_entry :: vmfs_bitmap_entry where
  "no_entry = \<lparr> mdh = \<lparr> pos = 0, lck = Lock_free \<rparr>, bme_id = 0, bme_items = [] \<rparr>"

text \<open>
  Modelled from the spec: \<open>get_entry(bitmap, entry_index, item_index)\<close> reads
  the entry fresh from the volume. The entry and the item are first made one
  flat index, as the File Block identifiers need (their entry is always 0 and
  their item is the flat index); the entry read is the one that holds this
  flat index. It fails when there is no such entry.
\<close>

definition flat_index :: "vmfs_bitmap_header \<Rightarrow> u32 \<Rightarrow> u32 \<Rightarrow> nat" where
  "flat_index bh entry item = unat entry * unat (items_per_bitmap_entry bh) + unat item"

definition spec_get_entry ::
  "volume \<Rightarrow> vmfs_bitmap \<Rightarrow> u32 \<Rightarrow> u32 \<Rightarrow> int \<times> vmfs_bitmap_entry" where
  "spec_get_entry v bmp entry item =
     (let n = unat (items_per_bitmap_entry (bmh bmp));
          k = flat_index (bmh bmp) entry item div n
      in if n = 0 \<or> bmp_entries (bmh bmp) \<le> k then (-1, no_entry)
         else (case meta v (entry_pos bmp k) of
                 None \<Rightarrow> (-1, no_entry)
               | Some e \<Rightarrow> (0, e)))"

text \<open>
  Modelled from the spec: \<open>get_item_status(header, entry, entry_index,
  item_index)\<close> reports the status bit of the item, 1 for Allocated and 0 for
  Free (the values that \<^verbatim>\<open>vmfs_block_alloc_specified\<close> and
  \<^verbatim>\<open>vmfs_block_free\<close> pass), and \<open>-1\<close> when the entry has no such item.
\<close>

definition item_in_entry :: "vmfs_bitmap_header \<Rightarrow> u32 \<Rightarrow> u32 \<Rightarrow> nat" where
  "item_in_entry bh entry item = flat_index bh entry item mod unat (items_per_bitmap_entry bh)"

definition spec_get_item_status ::
  "vmfs_bitmap_header \<Rightarrow> vmfs_bitmap_entry \<Rightarrow> u32 \<Rightarrow> u32 \<Rightarrow> int" where
  "spec_get_item_status bh e entry item =
     (let i = item_in_entry bh entry item
      in if length (bme_items e) \<le> i then -1
         else if bme_items e ! i then 1 else 0)"

text \<open>
  Modelled from the spec: \<open>set_item_status\<close> flips the bit of the item in the
  entry in memory; it is rejected when the index is out of range for the
  entry or the item is already in the requested state.
\<close>

definition spec_set_item_status ::
  "vmfs_bitmap_header \<Rightarrow> vmfs_bitmap_entry \<Rightarrow> u32 \<Rightarrow> u32 \<Rightarrow> int \<Rightarrow> int \<times> vmfs_bitmap_entry" where
  "spec_set_item_status bh e entry item status =
     (let i = item_in_entry bh entry item
      in if length (bme_items e) \<le> i then (-1, e)
         else if bme_items e ! i = (status \<noteq> 0) then (-1, e)
         else (0, e\<lparr>bme_items := (bme_items e)[i := (status \<noteq> 0)]\<rparr>))"

text \<open>
  Modelled from the spec: the Metadata Lock is a field of the metadata header
  stored on the volume. \<open>lock\<close> secures the region at a position when it is
  free and hands the header back; it fails when nothing is stored there or
  the region is held (waiting and the reclaiming of stale locks are left out).
  \<open>unlock\<close> releases the region that the handle names when this host holds
  it.
\<close>

definition lock_region ::
  "volume \<Rightarrow> int \<Rightarrow> vmfs_metadata_hdr \<Rightarrow> int \<times> vmfs_metadata_hdr \<times> volume" where
  "lock_region v p m =
     (case meta v p of
        None \<Rightarrow> (-1, m, v)
      | Some e \<Rightarrow>
          if lck (mdh e) = Lock_free then
            (let m' = (mdh e)\<lparr>lck := Lock_ours\<rparr>
             in (0, m', v\<lparr>meta := (meta v)(p \<mapsto> e\<lparr>mdh := m'\<rparr>)\<rparr>))
          else (-1, m, v))"

definition spec_metadata_lock ::
  "volume \<Rightarrow> vmfs_fs \<Rightarrow> int \<Rightarrow> nat \<Rightarrow> vmfs_metadata_hdr \<Rightarrow> int \<times> vmfs_metadata_hdr \<times> volume" where
  "spec_metadata_lock v fs p buf_len m = lock_region v p m"

definition spec_metadata_unlock :: "volume \<Rightarrow> vmfs_fs \<Rightarrow> vmfs_metadata_hdr \<Rightarrow> volume" where
  "spec_metadata_unlock v fs m =
     (case meta v (pos m) of
        None \<Rightarrow> v
      | Some e \<Rightarrow>
          if lck (mdh e) = Lock_ours then
            v\<lparr>meta := (meta v)(pos m \<mapsto> e\<lparr>mdh := (mdh e)\<lparr>lck := Lock_free\<rparr>\<rparr>)\<rparr>
          else v)"

text \<open>
  Modelled from the spec: \<open>find_free_entry(bitmap, count_needed)\<close> takes the
  first entry, in ascending order of the entry index, that has the free items
  needed, acquires the lock of that entry and returns the entry with the lock
  held. It fails when no entry has the free items or the lock is not
  acquired.
\<close>

definition free_items :: "vmfs_bitmap_entry \<Rightarrow> nat" where
  "free_items e = length (filter Not (bme_items e))"

fun first_free_entry :: "volume \<Rightarrow> vmfs_bitmap \<Rightarrow> nat \<Rightarrow> nat list \<Rightarrow> vmfs_bitmap_entry option" where
  "first_free_entry v bmp n [] = None"
| "first_free_entry v bmp n (k # ks) =
     (case meta v (entry_pos bmp k) of
        None \<Rightarrow> first_free_entry v bmp n ks
      | Some e \<Rightarrow> if 0 < n \<and> n \<le> free_items e then Some e else first_free_entry v bmp n ks)"

definition spec_find_free_items ::
  "volume \<Rightarrow> vmfs_bitmap \<Rightarrow> u32 \<Rightarrow> int \<times> vmfs_bitmap_entry \<times> volume" where
  "spec_find_free_items v bmp n =
     (case first_free_entry v bmp (unat n) [0 ..< bmp_entries (bmh bmp)] of
        None \<Rightarrow> (-1, no_entry, v)
      | Some e \<Rightarrow>
          (case lock_region v (pos (mdh e)) (mdh e) of
             (r, m, v') \<Rightarrow> if r = -1 then (-1, no_entry, v) else (0, e\<lparr>mdh := m\<rparr>, v')))"

text \<open>
  Modelled from the spec: no entry of the bitmap contains a free item.
\<close>

definition bitmap_full :: "volume \<Rightarrow> vmfs_bitmap \<Rightarrow> bool" where
  "bitmap_full v bmp =
     list_all (\<lambda>k. case meta v (entry_pos bmp k) of
                      None \<Rightarrow> True
                    | Some e \<Rightarrow> free_items e = 0)
       [0 ..< bmp_entries (bmh bmp)]"

text \<open>
  Modelled from the spec: marking the found item allocated takes the free item
  of the lowest index in the entry; it fails when the entry has none.
\<close>

fun first_free_item :: "bool list \<Rightarrow> nat option" where
  "first_free_item [] = None"
| "first_free_item (b # bs) =
     (if b then map_option Suc (first_free_item bs) else Some 0)"

definition spec_alloc_item :: "vmfs_bitmap_entry \<Rightarrow> int \<times> vmfs_bitmap_entry \<times> u32" where
  "spec_alloc_item e =
     (case first_free_item (bme_items e) of
        None \<Rightarrow> (-1, e, 0)
      | Some i \<Rightarrow> (0, e\<lparr>bme_items := (bme_items e)[i := True]\<rparr>, of_nat i))"

text \<open>
  Modelled from the spec: \<open>persist(fs, entry)\<close> writes the entry back at its
  position.
\<close>

definition spec_bme_update :: "volume \<Rightarrow> vmfs_fs \<Rightarrow> vmfs_bitmap_entry \<Rightarrow> volume" where
  "spec_bme_update v fs e = v\<lparr>meta := (meta v)(pos (mdh e) \<mapsto> e)\<rparr>"

text \<open>
  Modelled from the spec: \<open>write(position, bytes) -> bytes_written\<close>. A
  write into a file block stores the bytes that fit before the end of the
  room of the block and returns their number; it fails when the position
  is outside the block.
\<close>

definition spec_fs_write :: "volume \<Rightarrow> vmfs_fs \<Rightarrow> u32 \<Rightarrow> int \<Rightarrow> u8 list \<Rightarrow> int \<times> volume" where
  "spec_fs_write v fs blk p buf =
     (let old = blocks v blk
      in if p < 0 \<or> int (length old) < p then (-1, v)
         else
           (let n = min (length buf) (length old - nat p)
            in (int n,
                v\<lparr>blocks := (blocks v)(blk := take (nat p) old @ take n buf @ drop (nat p + n) old)\<rparr>)))"

definition spec_calls :: "volume vmfs_calls" where
  "spec_calls =
     \<lparr> vmfs_bitmap_get_entry = spec_get_entry,
       vmfs_bitmap_get_item_status = spec_get_item_status,
       vmfs_bitmap_set_item_status = spec_set_item_status,
       vmfs_bitmap_find_free_items = spec_find_free_items,
       vmfs_bitmap_alloc_item = spec_alloc_item,
       vmfs_bme_update = spec_bme_update,
       vmfs_metadata_lock = spec_metadata_lock,
       vmfs_metadata_unlock = spec_metadata_unlock,
       vmfs_fs_write = spec_fs_write \<rparr>"

text \<open>
  Modelled from the spec: a well-formed bitmap on a volume. Its entries have
  at least one item each, the flat index of every item fits 32 bits, and every
  entry of the bitmap is stored at its position, knows this position and its
  own index, and has the number of items that the header gives.
\<close>

definition entry_wf :: "vmfs_bitmap \<Rightarrow> volume \<Rightarrow> nat \<Rightarrow> bool" where
  "entry_wf bmp v k =
     (case meta v (entry_pos bmp k) of
        None \<Rightarrow> False
      | Some e \<Rightarrow>
          pos (mdh e) = entry_pos bmp k \<and> bme_id e = of_nat k \<and>
          length (bme_items e) = unat (items_per_bitmap_entry (bmh bmp)))"

definition bitmap_wf :: "vmfs_bitmap \<Rightarrow> volume \<Rightarrow> bool" where
  "bitmap_wf bmp v =
     (0 < unat (items_per_bitmap_entry (bmh bmp)) \<and>
      bmp_entries (bmh bmp) * unat (items_per_bitmap_entry (bmh bmp)) < 2 ^ 32 \<and>
      list_all (entry_wf bmp v) [0 ..< bmp_entries (bmh bmp)])"

subsection \<open>A small volume\<close>

text \<open>
  A filesystem for the examples: the File Block bitmap has two entries of four
  items, the first full and the second with the items 1 and 3 free; the
  Sub-Block bitmap has one entry, full; the Pointer Block bitmap has one entry
  whose lock another host holds; the File Descriptor bitmap has one entry with
  every item free. The blocks have 4096 bytes.
\<close>

definition demo_bitmap :: "nat \<Rightarrow> nat \<Rightarrow> int \<Rightarrow> vmfs_bitmap" where
  "demo_bitmap n k b =
     \<lparr> bmh = \<lparr> items_per_bitmap_entry = of_nat n, bmp_entries = k \<rparr>, bmp_base = b \<rparr>"

definition demo_fs :: vmfs_fs where
  "demo_fs =
     \<lparr> fbb = demo_bitmap 4 2 0, sbc = demo_bitmap 4 1 100,
       pbc = demo_bitmap 4 1 200, fdc = demo_bitmap 4 1 300,
       block_size = 4096 \<rparr>"

definition demo_entry :: "int \<Rightarrow> lock_state \<Rightarrow> u32 \<Rightarrow> bool list \<Rightarrow> vmfs_bitmap_entry" where
  "demo_entry p l k bs = \<lparr> mdh = \<lparr> pos = p, lck = l \<rparr>, bme_id = k, bme_items = bs \<rparr>"

definition demo_vol :: volume where
  "demo_vol =
     \<lparr> meta = [0 \<mapsto> demo_entry 0 Lock_free 0 [True, True, True, True],
               1 \<mapsto> demo_entry 1 Lock_free 1 [True, False, True, False],
               100 \<mapsto> demo_entry 100 Lock_free 0 [True, True, True, True],
               200 \<mapsto> demo_entry 200 Lock_foreign 0 [True, False, False, False],
               300 \<mapsto> demo_entry 300 Lock_free 0 [False, False, False, False]],
       blocks = (\<lambda>b. replicate 4096 255) \<rparr>"

definition demo_sys :: "volume sys" where
  "demo_sys = \<lparr> vol = demo_vol, trace = [] \<rparr>"

text \<open>
  The same volume with blocks that have room for 1000 bytes only, and the same
  filesystem with a block size of 1000 bytes.
\<close>

definition demo_short_sys :: "volume sys" where
  "demo_short_sys = \<lparr> vol = demo_vol\<lparr>blocks := (\<lambda>b. replicate 1000 255)\<rparr>, trace = [] \<rparr>"


text \<open>
  Modelled from the spec: the error path that the specification names, where
  marking the item is rejected after the search found an entry and took its
  lock. The bitmap module is that of the specification, except that
  \<^verbatim>\<open>vmfs_bitmap_alloc_item\<close> rejects every entry and leaves it as it is.
\<close>

definition reject_calls :: "volume vmfs_calls" where
  "reject_calls = spec_calls\<lparr>vmfs_bitmap_alloc_item := (\<lambda>e. (- 1, e, 0))\<rparr>"

section \<open>Lemmas\<close>

lemmas call_defs = call_get_entry_def call_get_item_status_def call_set_item_status_def
  call_find_free_items_def call_alloc_item_def call_bme_update_def call_metadata_lock_def
  call_metadata_unlock_def call_fs_write_def log_event_def

lemmas spec_defs = spec_calls_def spec_get_entry_def spec_get_item_status_def
  spec_set_item_status_def spec_find_free_items_def spec_alloc_item_def spec_bme_update_def
  spec_metadata_lock_def spec_metadata_unlock_def spec_fs_write_def lock_region_def
  flat_index_def item_in_entry_def entry_pos_def free_items_def no_entry_def

lemmas demo_defs = demo_fs_def demo_vol_def demo_sys_def demo_bitmap_def demo_entry_def

lemma sys_update_eq: "s\<lparr>vol := v, trace := t\<rparr> = \<lparr> vol = v, trace = t \<rparr>"
  by (cases s) simp

lemma new_events_append [simp]: "new_events s \<lparr> vol = v, trace = trace s @ es \<rparr> = es"
  by (simp add: new_events_def)

subsection \<open>The layout of the specification\<close>

lemma pack_id_tag:
  "drop_bit 29 (pack_id 0 e i) = 0"
  "drop_bit 29 (pack_id 2 e i) = 2"
  "drop_bit 29 (pack_id 3 e i) = 3"
  unfolding pack_id_def by (rule bit_eqI; auto simp: bit_simps)+

lemma pack_id_entry: "take_bit 16 (pack_id t e i) = take_bit 16 e"
  unfolding pack_id_def by (rule bit_eqI) (auto simp: bit_simps)

lemma pack_id_item: "take_bit 13 (drop_bit 16 (pack_id t e i)) = take_bit 13 i"
  unfolding pack_id_def by (rule bit_eqI) (auto simp: bit_simps)

lemma pack_fb_tag: "drop_bit 29 (pack_fb a) = 1"
  unfolding pack_fb_def by (rule bit_eqI) (auto simp: bit_simps)

lemma pack_fb_item: "take_bit 29 (pack_fb a) = take_bit 29 a"
  unfolding pack_fb_def by (rule bit_eqI) (auto simp: bit_simps)

lemma take_bit_small: "unat (a :: u32) < 2 ^ n \<Longrightarrow> take_bit n a = a"
  by (metis unsigned_take_bit_eq word_unat_eq_iff take_bit_nat_eq_self_iff)

lemma spec_tags_distinct: "tags_distinct spec_macros"
  by (simp add: tags_distinct_def spec_macros_def)

lemma spec_builders_keep_tag: "builders_keep_tag spec_macros"
  unfolding builders_keep_tag_def
proof
  fix c
  show "VMFS_BLK_TYPE spec_macros (build spec_macros c) = class_tag spec_macros c"
    by (cases c) (simp_all add: spec_macros_def pack_id_tag pack_fb_tag)
qed

lemma spec_in_range_FB: "unat a < 2 ^ 29 \<Longrightarrow> in_range spec_macros (FB a)"
  by (simp add: in_range_def spec_macros_def pack_fb_tag pack_fb_item take_bit_small)

lemma spec_in_range_SB:
  "unat e < 2 ^ 16 \<Longrightarrow> unat i < 2 ^ 13 \<Longrightarrow> in_range spec_macros (SB e i)"
  by (simp add: in_range_def spec_macros_def pack_id_tag pack_id_entry pack_id_item take_bit_small)

lemma spec_in_range_PB:
  "unat e < 2 ^ 16 \<Longrightarrow> unat i < 2 ^ 13 \<Longrightarrow> in_range spec_macros (PB e i)"
  by (simp add: in_range_def spec_macros_def pack_id_tag pack_id_entry pack_id_item take_bit_small)

lemma spec_in_range_FD:
  "unat e < 2 ^ 16 \<Longrightarrow> unat i < 2 ^ 13 \<Longrightarrow> in_range spec_macros (FD e i)"
  by (simp add: in_range_def spec_macros_def pack_id_tag pack_id_entry pack_id_item take_bit_small)

subsection \<open>Layouts of bit fields\<close>

lemma fits_take: "fits f x \<Longrightarrow> take_bit (f_width f) x = x"
  by (simp add: fits_def take_bit_small)

lemma get_put_same: "field_inside f \<Longrightarrow> get_field f (put_field f x) = take_bit (f_width f) x"
  unfolding get_field_def put_field_def field_inside_def
  by (rule bit_eqI) (auto simp: bit_simps)

lemma get_put_fits: "field_inside f \<Longrightarrow> fits f x \<Longrightarrow> get_field f (put_field f x) = x"
  by (simp add: get_put_same fits_take)

lemma get_put_other: "fields_apart f g \<Longrightarrow> get_field f (put_field g x) = 0"
  unfolding get_field_def put_field_def fields_apart_def
  by (rule bit_eqI) (auto simp: bit_simps)

lemma get_field_or: "get_field f (a OR b) = get_field f a OR get_field f b"
  unfolding get_field_def
  by (rule bit_eqI) (auto simp: bit_simps)

lemma fields_apart_sym: "fields_apart f g \<Longrightarrow> fields_apart g f"
  by (auto simp: fields_apart_def)

lemma pack1_tag:
  assumes "field_inside (tag_field L)" "fits (tag_field L) t" "fields_apart (tag_field L) f"
  shows "get_field (tag_field L) (pack1 L t f x) = t"
  using assms by (simp add: pack1_def get_field_or get_put_fits get_put_other)

lemma pack1_get:
  assumes "field_inside f" "fits f x" "fields_apart (tag_field L) f"
  shows "get_field f (pack1 L t f x) = x"
  using assms fields_apart_sym[of "tag_field L" f]
  by (simp add: pack1_def get_field_or get_put_fits get_put_other)

lemma pack2_tag:
  assumes "field_inside (tag_field L)" "fits (tag_field L) t"
    "fields_apart (tag_field L) f" "fields_apart (tag_field L) g"
  shows "get_field (tag_field L) (pack2 L t f x g y) = t"
  using assms by (simp add: pack2_def get_field_or get_put_fits get_put_other)

lemma pack2_get_first:
  assumes "field_inside f" "fits f x" "fields_apart (tag_field L) f" "fields_apart f g"
  shows "get_field f (pack2 L t f x g y) = x"
  using assms fields_apart_sym[of "tag_field L" f]
  by (simp add: pack2_def get_field_or get_put_fits get_put_other)

lemma pack2_get_second:
  assumes "field_inside g" "fits g y" "fields_apart (tag_field L) g" "fields_apart f g"
  shows "get_field g (pack2 L t f x g y) = y"
  using assms fields_apart_sym[of "tag_field L" g] fields_apart_sym[of f g]
  by (simp add: pack2_def get_field_or get_put_fits get_put_other)

lemma layout_tags_distinct: "layout_ok L \<Longrightarrow> tags_distinct (layout_macros L dio es)"
  by (simp add: layout_ok_def tags_distinct_def layout_macros_def)

lemma layout_in_range:
  assumes "layout_ok L" "layout_range L c"
  shows "in_range (layout_macros L dio es) c"
proof (cases c)
  case (FB a)
  with assms show ?thesis
    by (simp add: in_range_def layout_macros_def layout_ok_def coord_fields_def
        pack1_tag pack1_get)
next
  case (SB e i)
  with assms show ?thesis
    by (simp add: in_range_def layout_macros_def layout_ok_def coord_fields_def
        pack2_tag pack2_get_first pack2_get_second)
next
  case (PB e i)
  with assms show ?thesis
    by (simp add: in_range_def layout_macros_def layout_ok_def coord_fields_def
        pack2_tag pack2_get_first pack2_get_second)
next
  case (FD e i)
  with assms show ?thesis
    by (simp add: in_range_def layout_macros_def layout_ok_def coord_fields_def
        pack2_tag pack2_get_first pack2_get_second)
qed

lemma spec_layout_ok: "layout_ok spec_layout"
  by (simp add: layout_ok_def coord_fields_def spec_layout_def field_inside_def
      fields_apart_def fits_def)

lemma top3: "take_bit 3 (drop_bit 29 (b :: u32)) = drop_bit 29 b"
  by (rule bit_eqI) (auto simp: bit_simps dest: bit_imp_le_length)

lemma spec_macros_layout: "spec_macros = layout_macros spec_layout 512 1024"
  by (simp add: spec_macros_def layout_macros_def spec_layout_def fun_eq_iff pack_id_def
      pack_fb_def pack1_def pack2_def put_field_def get_field_def top3 ac_simps)

subsection \<open>Resolving a built identifier\<close>

lemma resolve_FB:
  "in_range h (FB a) \<Longrightarrow>
   vmfs_block_get_bitmap_info h fs (VMFS_BLK_FB_BUILD h a) outs = (0, fbb fs, 0, a)"
  by (simp add: in_range_def vmfs_block_get_bitmap_info_def Let_def)

lemma resolve_SB:
  "tags_distinct h \<Longrightarrow> in_range h (SB e i) \<Longrightarrow>
   vmfs_block_get_bitmap_info h fs (VMFS_BLK_SB_BUILD h e i) outs = (0, sbc fs, e, i)"
  by (auto simp: in_range_def tags_distinct_def vmfs_block_get_bitmap_info_def Let_def)

lemma resolve_PB:
  "tags_distinct h \<Longrightarrow> in_range h (PB e i) \<Longrightarrow>
   vmfs_block_get_bitmap_info h fs (VMFS_BLK_PB_BUILD h e i) outs = (0, pbc fs, e, i)"
  by (auto simp: in_range_def tags_distinct_def vmfs_block_get_bitmap_info_def Let_def)

lemma resolve_FD:
  "tags_distinct h \<Longrightarrow> in_range h (FD e i) \<Longrightarrow>
   vmfs_block_get_bitmap_info h fs (VMFS_BLK_FD_BUILD h e i) outs = (0, fdc fs, e, i)"
  by (auto simp: in_range_def tags_distinct_def vmfs_block_get_bitmap_info_def Let_def)

subsection \<open>The calls of \<^verbatim>\<open>vmfs_block_set_status\<close> and \<^verbatim>\<open>vmfs_block_alloc\<close>\<close>

lemma c_not_never: "c_not r \<noteq> - 1"
  by (simp add: c_not_def)

lemma unlocks_append: "unlocks (xs @ ys) = unlocks xs @ unlocks ys"
  by (induction xs rule: unlocks.induct) simp_all

lemma set_status_trace:
  assumes "vmfs_block_get_bitmap_info h fs blk_id (locals0 fs) = (r0, bmp, be, bi)" "r0 \<noteq> - 1"
    and "vmfs_bitmap_get_entry cb (vol s) bmp be bi = (r1, e1)" "r1 \<noteq> - 1"
    and "vmfs_metadata_lock cb (vol s) fs (pos (mdh e1)) (VMFS_BITMAP_ENTRY_SIZE h) (mdh e1) = (r2, m2, v2)"
    and "vmfs_bitmap_set_item_status cb (bmh bmp) (e1\<lparr>mdh := m2\<rparr>) be bi status = (r3, e3)"
  shows "vmfs_block_set_status cb h fs blk_id status s =
           (if r3 = - 1 then - 1 else 0,
            \<lparr> vol = vmfs_metadata_unlock cb
                      (if r3 = - 1 then v2 else vmfs_bme_update cb v2 fs e3) fs (mdh e3),
              trace = trace s @
                [Ev_get_entry bmp be bi, Ev_lock (pos (mdh e1)),
                 Ev_set_item_status (e1\<lparr>mdh := m2\<rparr>) be bi status] @
                (if r3 = - 1 then [] else [Ev_bme_update e3]) @ [Ev_unlock (mdh e3)] \<rparr>)"
  using assms by (simp add: vmfs_block_set_status_def call_defs c_not_never)

lemma alloc_trace:
  assumes "alloc_bitmap h fs blk_type = Some bmp"
    and "vmfs_bitmap_find_free_items cb (vol s) bmp 1 = (r1, e1, v1)" "r1 \<noteq> - 1"
    and "vmfs_bitmap_alloc_item cb e1 = (r2, e2, item)"
  shows "vmfs_block_alloc cb h fs blk_type b s =
           (if r2 = - 1 then - 1 else 0,
            if r2 = - 1 then b else alloc_blk_id h bmp blk_type e2 item b,
            \<lparr> vol = vmfs_metadata_unlock cb
                      (if r2 = - 1 then v1 else vmfs_bme_update cb v1 fs e2) fs (mdh e2),
              trace = trace s @
                [Ev_find_free_items bmp 1, Ev_alloc_item e1] @
                (if r2 = - 1 then [] else [Ev_bme_update e2]) @ [Ev_unlock (mdh e2)] \<rparr>)"
  using assms by (simp add: vmfs_block_alloc_def call_defs)

lemma alloc_blk_id_indep:
  "alloc_bitmap h fs blk_type = Some bmp \<Longrightarrow>
   alloc_blk_id h bmp' blk_type e item b = alloc_blk_id h bmp' blk_type e item b'"
  by (auto simp: alloc_bitmap_def alloc_blk_id_def split: if_splits)

lemma alloc_blk_id_build:
  assumes "alloc_bitmap h fs blk_type = Some bmp"
  shows "\<exists>c. alloc_blk_id h bmp' blk_type e item b = build h c \<and> class_tag h c = blk_type"
proof -
  consider (fb) "blk_type = VMFS_BLK_TYPE_FB h"
    | (sb) "blk_type \<noteq> VMFS_BLK_TYPE_FB h" "blk_type = VMFS_BLK_TYPE_SB h"
    | (pb) "blk_type \<noteq> VMFS_BLK_TYPE_FB h" "blk_type \<noteq> VMFS_BLK_TYPE_SB h"
        "blk_type = VMFS_BLK_TYPE_PB h"
    | (fd) "blk_type \<noteq> VMFS_BLK_TYPE_FB h" "blk_type \<noteq> VMFS_BLK_TYPE_SB h"
        "blk_type \<noteq> VMFS_BLK_TYPE_PB h" "blk_type = VMFS_BLK_TYPE_FD h"
    using assms by (auto simp: alloc_bitmap_def split: if_splits)
  then show ?thesis
  proof cases
    case fb
    then have "alloc_blk_id h bmp' blk_type e item b =
        build h (FB (bme_id e * items_per_bitmap_entry (bmh bmp') + item))"
      by (simp add: alloc_blk_id_def)
    with fb show ?thesis by (metis class_tag.simps(1))
  next
    case sb
    then have "alloc_blk_id h bmp' blk_type e item b = build h (SB (bme_id e) item)"
      by (simp add: alloc_blk_id_def)
    with sb show ?thesis by (metis class_tag.simps(2))
  next
    case pb
    then have "alloc_blk_id h bmp' blk_type e item b = build h (PB (bme_id e) item)"
      by (simp add: alloc_blk_id_def)
    with pb show ?thesis by (metis class_tag.simps(3))
  next
    case fd
    then have "alloc_blk_id h bmp' blk_type e item b = build h (FD (bme_id e) item)"
      by (simp add: alloc_blk_id_def)
    with fd show ?thesis by (metis class_tag.simps(4))
  qed
qed

lemma alloc_success_cases:
  assumes "vmfs_block_alloc cb h fs blk_type b0 s = (0, b, s')"
  shows "\<exists>bmp e item. alloc_bitmap h fs blk_type = Some bmp \<and>
    (\<forall>b1. vmfs_block_alloc cb h fs blk_type b1 s = (0, alloc_blk_id h bmp blk_type e item b1, s'))"
proof (cases "alloc_bitmap h fs blk_type")
  case None
  with assms show ?thesis by (simp add: vmfs_block_alloc_def)
next
  case (Some bmp)
  obtain r1 e1 v1 where f: "vmfs_bitmap_find_free_items cb (vol s) bmp 1 = (r1, e1, v1)"
    by (cases "vmfs_bitmap_find_free_items cb (vol s) bmp 1")
  obtain r2 e2 item where a: "vmfs_bitmap_alloc_item cb e1 = (r2, e2, item)"
    by (cases "vmfs_bitmap_alloc_item cb e1")
  have r1: "r1 \<noteq> - 1"
    using assms Some f by (auto simp: vmfs_block_alloc_def call_defs)
  have r2: "r2 \<noteq> - 1"
    using assms alloc_trace[OF Some f r1 a, of b0] by (auto split: if_splits)
  have "vmfs_block_alloc cb h fs blk_type b1 s = (0, alloc_blk_id h bmp blk_type e2 item b1, s')" for b1
    using assms alloc_trace[OF Some f r1 a, of b0] alloc_trace[OF Some f r1 a, of b1] r2 by simp
  with Some show ?thesis by blast
qed

lemma alloc_fb_bitmap: "alloc_bitmap h fs (VMFS_BLK_TYPE_FB h) = Some (fbb fs)"
  by (simp add: alloc_bitmap_def)

lemma alloc_fb_id:
  "alloc_blk_id h bmp (VMFS_BLK_TYPE_FB h) e item out0 =
     VMFS_BLK_FB_BUILD h (bme_id e * items_per_bitmap_entry (bmh bmp) + item)"
  by (simp add: alloc_blk_id_def)

subsection \<open>The loop of the zeroizer\<close>

lemma zeroize_fb_loop:
  "VMFS_BLK_TYPE h blk_id = VMFS_BLK_TYPE_FB h \<Longrightarrow>
   vmfs_block_zeroize_fb cb h fs blk_id s =
     zeroize_loop cb fs (VMFS_BLK_FB_ITEM h blk_id) (replicate (M_DIO_BLK_SIZE h) 0)
       (vmfs_fs_get_blocksize fs) 0 s"
  by (simp add: vmfs_block_zeroize_fb_def Let_def)

lemma zeroize_loop_short_write:
  assumes "p < len" "fst (vmfs_fs_write cb (vol s) fs blk p buf) \<noteq> int (length buf)"
  shows "zeroize_loop cb fs blk buf len p s =
           Some (- 1, \<lparr> vol = snd (vmfs_fs_write cb (vol s) fs blk p buf),
                         trace = trace s @ [Ev_fs_write blk p buf] \<rparr>)"
proof (cases "vmfs_fs_write cb (vol s) fs blk p buf")
  case (Pair r v)
  with assms show ?thesis
    by (subst zeroize_loop.simps) (simp add: call_defs)
qed

lemma zeroize_loop_full_write:
  assumes "p < len" "fst (vmfs_fs_write cb (vol s) fs blk p buf) = int (length buf)"
  shows "zeroize_loop cb fs blk buf len p s =
           zeroize_loop cb fs blk buf len (p + int (length buf))
             \<lparr> vol = snd (vmfs_fs_write cb (vol s) fs blk p buf),
               trace = trace s @ [Ev_fs_write blk p buf] \<rparr>"
proof (cases "vmfs_fs_write cb (vol s) fs blk p buf")
  case (Pair r v)
  with assms show ?thesis
    by (subst zeroize_loop.simps) (simp add: call_defs sys_update_eq)
qed

lemma zeroize_loop_end:
  "\<not> p < len \<Longrightarrow> zeroize_loop cb fs blk buf len p s = Some (0, s)"
  by (subst zeroize_loop.simps) simp

lemma chunks_0:
  assumes "0 < c"
  shows "chunks len c = 0 \<longleftrightarrow> len \<le> 0"
proof -
  have "0 < (len + int c - 1) div int c \<longleftrightarrow> int c \<le> len + int c - 1"
    using assms by (simp add: pos_imp_zdiv_pos_iff)
  then show ?thesis by (auto simp: chunks_def)
qed

lemma chunks_Suc:
  assumes "0 < c" "0 < len"
  shows "chunks len c = Suc (chunks (len - int c) c)"
proof -
  have "(len + int c - 1) div int c = (len - int c + int c - 1) div int c + 1"
    using assms by (smt (verit) div_add_self2 of_nat_0_less_iff)
  moreover have "0 \<le> (len - int c + int c - 1) div int c"
    using assms by (simp add: pos_imp_zdiv_nonneg_iff)
  ultimately show ?thesis by (simp add: chunks_def)
qed

lemma zeroize_loop_all_written:
  assumes "0 < length buf"
  shows "writes_ok cb fs blk buf p n (vol s) \<Longrightarrow> n = chunks (len - p) (length buf) \<Longrightarrow>
         zeroize_loop cb fs blk buf len p s =
           Some (0, \<lparr> vol = vol_after cb fs blk buf p n (vol s),
                      trace = trace s @ write_events blk buf p n \<rparr>)"
proof (induction n arbitrary: p s)
  case 0
  then have "\<not> p < len" using assms chunks_0[of "length buf" "len - p"] by simp
  then show ?case by (simp add: zeroize_loop_end)
next
  case (Suc n)
  have lt: "p < len"
    using Suc.prems(2) assms chunks_0[of "length buf" "len - p"] by (cases "p < len") auto
  let ?s = "\<lparr> vol = snd (vmfs_fs_write cb (vol s) fs blk p buf),
               trace = trace s @ [Ev_fs_write blk p buf] \<rparr>"
  have n: "n = chunks (len - (p + int (length buf))) (length buf)"
    using Suc.prems(2) chunks_Suc[OF assms, of "len - p"] lt by (simp add: algebra_simps)
  have w: "fst (vmfs_fs_write cb (vol s) fs blk p buf) = int (length buf)"
    and ok: "writes_ok cb fs blk buf (p + int (length buf)) n (vol ?s)"
    using Suc.prems(1) by simp_all
  show ?case
    using Suc.IH[OF ok n] zeroize_loop_full_write[OF lt w] by simp
qed

lemma zeroize_loop_stops_at:
  assumes "0 \<le> int (length buf)"
  shows "writes_ok cb fs blk buf p j (vol s) \<Longrightarrow>
         p + int j * int (length buf) < len \<Longrightarrow>
         fst (vmfs_fs_write cb (vol_after cb fs blk buf p j (vol s)) fs blk
                (p + int j * int (length buf)) buf) \<noteq> int (length buf) \<Longrightarrow>
         zeroize_loop cb fs blk buf len p s =
           Some (- 1,
             \<lparr> vol = snd (vmfs_fs_write cb (vol_after cb fs blk buf p j (vol s)) fs blk
                        (p + int j * int (length buf)) buf),
               trace = trace s @ write_events blk buf p (Suc j) \<rparr>)"
proof (induction j arbitrary: p s)
  case 0
  then show ?case using zeroize_loop_short_write[of p len cb s fs blk buf] by simp
next
  case (Suc j)
  let ?s = "\<lparr> vol = snd (vmfs_fs_write cb (vol s) fs blk p buf),
               trace = trace s @ [Ev_fs_write blk p buf] \<rparr>"
  have lt: "p < len"
  proof -
    have "0 \<le> int (Suc j) * int (length buf)" by simp
    with Suc.prems(2) show ?thesis by linarith
  qed
  have w: "fst (vmfs_fs_write cb (vol s) fs blk p buf) = int (length buf)"
    and ok: "writes_ok cb fs blk buf (p + int (length buf)) j (vol ?s)"
    using Suc.prems(1) by simp_all
  have pos: "p + int (length buf) + int j * int (length buf) = p + int (Suc j) * int (length buf)"
    by (simp add: algebra_simps)
  have lt': "p + int (length buf) + int j * int (length buf) < len"
    using Suc.prems(2) pos by simp
  have bad: "fst (vmfs_fs_write cb (vol_after cb fs blk buf (p + int (length buf)) j (vol ?s)) fs blk
                (p + int (length buf) + int j * int (length buf)) buf) \<noteq> int (length buf)"
    unfolding pos using Suc.prems(3) by simp
  show ?case
    using Suc.IH[OF ok lt' bad] zeroize_loop_full_write[OF lt w] pos by simp
qed

lemma write_events_map:
  "write_events blk buf p n = map (\<lambda>k. Ev_fs_write blk (p + int k * int (length buf)) buf) [0..<n]"
proof (induction n arbitrary: p)
  case 0
  show ?case by simp
next
  case (Suc n)
  have "[0..<Suc n] = 0 # map Suc [0..<n]"
    by (simp add: upt_conv_Cons map_Suc_upt del: upt_Suc)
  then show ?case using Suc.IH[of "p + int (length buf)"]
    by (simp add: algebra_simps comp_def del: upt_Suc)
qed

lemma written_bytes_write_events: "written_bytes (write_events blk buf p n) = n * length buf"
  by (induction n arbitrary: p) simp_all

lemma length_write_events: "length (write_events blk buf p n) = n"
  by (induction n arbitrary: p) simp_all






subsection \<open>The writes of the specification\<close>

lemma spec_fs_write_fits:
  assumes "0 \<le> p" "nat p + length buf \<le> length (blocks v blk)"
  shows "fst (spec_fs_write v fs blk p buf) = int (length buf)"
    and "length (blocks (snd (spec_fs_write v fs blk p buf)) blk) = length (blocks v blk)"
proof -
  have inside: "\<not> (p < 0 \<or> int (length (blocks v blk)) < p)"
    using assms by linarith
  have n: "min (length buf) (length (blocks v blk) - nat p) = length buf"
    using assms by linarith
  show "fst (spec_fs_write v fs blk p buf) = int (length buf)"
    using inside n by (simp add: spec_fs_write_def Let_def)
  show "length (blocks (snd (spec_fs_write v fs blk p buf)) blk) = length (blocks v blk)"
    using inside n assms by (simp add: spec_fs_write_def Let_def)
qed

lemma spec_fs_write_result:
  assumes "0 \<le> p" "nat p \<le> length (blocks v blk)"
  shows "fst (spec_fs_write v fs blk p buf)
           = int (min (length buf) (length (blocks v blk) - nat p))"
proof -
  have inside: "\<not> (p < 0 \<or> int (length (blocks v blk)) < p)"
    using assms by linarith
  then show ?thesis by (simp add: spec_fs_write_def Let_def)
qed

lemma spec_writes_ok:
  "0 \<le> p \<Longrightarrow> nat p + n * length buf \<le> length (blocks v blk) \<Longrightarrow>
   writes_ok spec_calls fs blk buf p n v"
proof (induction n arbitrary: p v)
  case 0
  show ?case by simp
next
  case (Suc n)
  have fit: "nat p + length buf \<le> length (blocks v blk)" using Suc.prems(2) by simp
  have w: "vmfs_fs_write spec_calls = spec_fs_write" by (simp add: spec_calls_def)
  have "nat (p + int (length buf)) + n * length buf
          \<le> length (blocks (snd (spec_fs_write v fs blk p buf)) blk)"
    using Suc.prems spec_fs_write_fits(2)[OF Suc.prems(1) fit, of fs]
    by (simp add: nat_add_distrib)
  then have "writes_ok spec_calls fs blk buf (p + int (length buf)) n
               (snd (spec_fs_write v fs blk p buf))"
    using Suc.prems(1) by (intro Suc.IH) simp_all
  then show ?case
    using spec_fs_write_fits(1)[OF Suc.prems(1) fit, of fs] by (simp add: w)
qed


subsection \<open>The bitmap codec of the specification\<close>

lemma unat_flat:
  assumes "k * unat w + i < 2 ^ 32" "0 < unat w"
  shows "unat (of_nat k * w + of_nat i :: u32) = k * unat w + i"
proof -
  have k: "k < 2 ^ 32"
  proof -
    have "k \<le> k * unat w" using assms(2) by simp
    with assms(1) show ?thesis by linarith
  qed
  have i: "i < 2 ^ 32" using assms(1) by linarith
  have uk: "unat (of_nat k :: u32) = k" using k by (simp add: unat_of_nat)
  have ui: "unat (of_nat i :: u32) = i" using i by (simp add: unat_of_nat)
  have "unat (of_nat k * w + of_nat i :: u32) = (unat (of_nat k * w :: u32) + i) mod 2 ^ 32"
    by (simp add: unat_word_ariths ui)
  also have "unat (of_nat k * w :: u32) = (k * unat w) mod 2 ^ 32"
    by (simp add: unat_word_ariths uk)
  finally show ?thesis using assms(1) by simp
qed

lemma flat_div_mod:
  assumes "i < (n::nat)"
  shows "(k * n + i) div n = k" "(k * n + i) mod n = i"
  using assms by simp_all

lemma first_free_entry_Some:
  "first_free_entry v bmp n ks = Some e \<Longrightarrow>
   \<exists>k \<in> set ks. meta v (entry_pos bmp k) = Some e \<and> 0 < n \<and> n \<le> free_items e"
  by (induction ks) (auto split: option.splits if_splits)

lemma first_free_entry_full:
  "list_all (\<lambda>k. case meta v (entry_pos bmp k) of None \<Rightarrow> True | Some e \<Rightarrow> free_items e = 0) ks
     \<Longrightarrow> first_free_entry v bmp n ks = None"
  by (induction ks) (auto split: option.splits)

lemma spec_search_full:
  "bitmap_full v bmp \<Longrightarrow> spec_find_free_items v bmp n = (- 1, no_entry, v)"
  by (simp add: bitmap_full_def spec_find_free_items_def first_free_entry_full)

lemma first_free_item_Some:
  "first_free_item bs = Some i \<Longrightarrow> i < length bs \<and> \<not> bs ! i"
  by (induction bs arbitrary: i) (auto split: if_splits)

lemma bitmap_wf_entry:
  "bitmap_wf bmp v \<Longrightarrow> k < bmp_entries (bmh bmp) \<Longrightarrow> meta v (entry_pos bmp k) = Some e \<Longrightarrow>
   pos (mdh e) = entry_pos bmp k \<and> bme_id e = of_nat k \<and>
   length (bme_items e) = unat (items_per_bitmap_entry (bmh bmp))"
  by (auto simp: bitmap_wf_def list_all_iff entry_wf_def split: option.splits)

lemma bitmap_wf_fit:
  assumes "bitmap_wf bmp v" "k < bmp_entries (bmh bmp)"
    "i < unat (items_per_bitmap_entry (bmh bmp))"
  shows "k * unat (items_per_bitmap_entry (bmh bmp)) + i
           < bmp_entries (bmh bmp) * unat (items_per_bitmap_entry (bmh bmp))"
proof -
  let ?n = "unat (items_per_bitmap_entry (bmh bmp))"
  have "k * ?n + i < k * ?n + ?n" using assms(3) by simp
  also have "\<dots> = Suc k * ?n" by simp
  also have "\<dots> \<le> bmp_entries (bmh bmp) * ?n"
    using assms(2) by (intro mult_le_mono1) simp
  finally show ?thesis .
qed

lemma unlock_after_lock:
  "lck m = Lock_free \<Longrightarrow> (m\<lparr>lck := Lock_ours\<rparr>)\<lparr>lck := Lock_free\<rparr> = m"
  by (cases m) simp

lemma spec_get_status_item:
  fixes fs :: vmfs_fs
  defines "bmp \<equiv> fbb fs"
  defines "n \<equiv> unat (items_per_bitmap_entry (bmh bmp))"
  assumes i: "i < n" and k: "k < bmp_entries (bmh bmp)"
    and fit: "k * n + i < 2 ^ 32"
    and a: "a = of_nat k * items_per_bitmap_entry (bmh bmp) + of_nat i"
    and rng: "in_range h (FB a)"
    and e: "meta (vol s) (entry_pos bmp k) = Some e"
    and len: "length (bme_items e) = n"
  shows "fst (vmfs_block_get_status spec_calls h fs (VMFS_BLK_FB_BUILD h a) s)
           = (if bme_items e ! i then 1 else 0)"
proof -
  have n0: "0 < n" using i by simp
  have ua: "unat a = k * n + i"
    unfolding a n_def using fit n0 by (intro unat_flat) (simp_all add: n_def)
  have res: "vmfs_block_get_bitmap_info h fs (VMFS_BLK_FB_BUILD h a) (locals0 fs) = (0, bmp, 0, a)"
    unfolding bmp_def by (rule resolve_FB[OF rng])
  have fl: "flat_index (bmh bmp) 0 a = k * n + i"
    by (simp add: flat_index_def ua)
  have ge: "vmfs_bitmap_get_entry spec_calls (vol s) bmp 0 a = (0, e)"
    using n0 k e i by (simp add: spec_calls_def spec_get_entry_def fl n_def[symmetric] Let_def)
  have st: "vmfs_bitmap_get_item_status spec_calls (bmh bmp) e 0 a = (if bme_items e ! i then 1 else 0)"
    using i len by (simp add: spec_calls_def spec_get_item_status_def item_in_entry_def fl
        n_def[symmetric] Let_def)
  show ?thesis
    by (simp add: vmfs_block_get_status_def res call_defs ge st)
qed

lemma spec_set_status_item:
  fixes fs :: vmfs_fs
  defines "bmp \<equiv> fbb fs"
  defines "n \<equiv> unat (items_per_bitmap_entry (bmh bmp))"
  assumes i: "i < n" and k: "k < bmp_entries (bmh bmp)"
    and fit: "k * n + i < 2 ^ 32"
    and a: "a = of_nat k * items_per_bitmap_entry (bmh bmp) + of_nat i"
    and rng: "in_range h (FB a)"
    and e: "meta (vol s) (entry_pos bmp k) = Some e"
    and len: "length (bme_items e) = n"
    and posn: "pos (mdh e) = entry_pos bmp k"
    and free: "lck (mdh e) = Lock_free"
    and diff: "bme_items e ! i \<noteq> (status \<noteq> 0)"
  shows "\<exists>s'. vmfs_block_set_status spec_calls h fs (VMFS_BLK_FB_BUILD h a) status s = (0, s') \<and>
           meta (vol s') (entry_pos bmp k)
             = Some (e\<lparr>bme_items := (bme_items e)[i := (status \<noteq> 0)]\<rparr>)"
proof -
  have n0: "0 < n" using i by simp
  have ua: "unat a = k * n + i"
    unfolding a n_def using fit n0 by (intro unat_flat) (simp_all add: n_def)
  have res: "vmfs_block_get_bitmap_info h fs (VMFS_BLK_FB_BUILD h a) (locals0 fs) = (0, bmp, 0, a)"
    unfolding bmp_def by (rule resolve_FB[OF rng])
  have fl: "flat_index (bmh bmp) 0 a = k * n + i"
    by (simp add: flat_index_def ua)
  have ge: "vmfs_bitmap_get_entry spec_calls (vol s) bmp 0 a = (0, e)"
    using n0 k e i by (simp add: spec_calls_def spec_get_entry_def fl n_def[symmetric] Let_def)
  let ?m2 = "(mdh e)\<lparr>lck := Lock_ours\<rparr>"
  let ?v2 = "(vol s)\<lparr>meta := (meta (vol s))(entry_pos bmp k \<mapsto> e\<lparr>mdh := ?m2\<rparr>)\<rparr>"
  have lk: "vmfs_metadata_lock spec_calls (vol s) fs (pos (mdh e)) (VMFS_BITMAP_ENTRY_SIZE h) (mdh e)
      = (0, ?m2, ?v2)"
    using e free by (simp add: spec_calls_def spec_metadata_lock_def lock_region_def posn Let_def)
  let ?e3 = "e\<lparr>mdh := ?m2, bme_items := (bme_items e)[i := (status \<noteq> 0)]\<rparr>"
  have st: "vmfs_bitmap_set_item_status spec_calls (bmh bmp) (e\<lparr>mdh := ?m2\<rparr>) 0 a status = (0, ?e3)"
    using i len diff by (simp add: spec_calls_def spec_set_item_status_def item_in_entry_def fl
        n_def[symmetric] Let_def)
  note tr = set_status_trace[OF res _ ge _ lk st]
  let ?s' = "snd (vmfs_block_set_status spec_calls h fs (VMFS_BLK_FB_BUILD h a) status s)"
  have r: "vmfs_block_set_status spec_calls h fs (VMFS_BLK_FB_BUILD h a) status s = (0, ?s')"
    using tr by simp
  have "vol ?s' = spec_metadata_unlock (spec_bme_update ?v2 fs ?e3) fs (mdh ?e3)"
    using tr by (simp add: spec_calls_def)
  then have "meta (vol ?s') (entry_pos bmp k)
      = Some (e\<lparr>bme_items := (bme_items e)[i := (status \<noteq> 0)]\<rparr>)"
    using free posn
    by (simp add: spec_metadata_unlock_def spec_bme_update_def unlock_after_lock)
  with r show ?thesis by blast
qed

lemma spec_alloc_fb:
  fixes fs :: vmfs_fs
  defines "bmp \<equiv> fbb fs"
  defines "n \<equiv> unat (items_per_bitmap_entry (bmh bmp))"
  assumes wf: "bitmap_wf bmp (vol s)"
    and alloc: "vmfs_block_alloc spec_calls h fs (VMFS_BLK_TYPE_FB h) out0 s = (0, blk, s1)"
  shows "\<exists>k i e. k < bmp_entries (bmh bmp) \<and> i < n \<and>
           meta (vol s) (entry_pos bmp k) = Some e \<and> lck (mdh e) = Lock_free \<and>
           blk = VMFS_BLK_FB_BUILD h (of_nat k * items_per_bitmap_entry (bmh bmp) + of_nat i) \<and>
           meta (vol s1) (entry_pos bmp k) = Some (e\<lparr>bme_items := (bme_items e)[i := True]\<rparr>)"
proof -
  note sel = alloc_fb_bitmap[of h fs, folded bmp_def]
  obtain r1 e1 v1 where f: "vmfs_bitmap_find_free_items spec_calls (vol s) bmp 1 = (r1, e1, v1)"
    by (cases "vmfs_bitmap_find_free_items spec_calls (vol s) bmp 1")
  have r1: "r1 \<noteq> - 1"
    using alloc sel f by (auto simp: vmfs_block_alloc_def call_defs)
  obtain r2 e2 item where ai: "vmfs_bitmap_alloc_item spec_calls e1 = (r2, e2, item)"
    by (cases "vmfs_bitmap_alloc_item spec_calls e1")
  note tr = alloc_trace[OF sel f r1 ai, of out0]
  have r2: "r2 \<noteq> - 1" using tr alloc by (auto split: if_splits)
  \<comment> \<open>the search\<close>
  have f': "spec_find_free_items (vol s) bmp 1 = (r1, e1, v1)"
    using f by (simp add: spec_calls_def)
  obtain e where ffe: "first_free_entry (vol s) bmp 1 [0 ..< bmp_entries (bmh bmp)] = Some e"
    using f' r1 by (cases "first_free_entry (vol s) bmp 1 [0 ..< bmp_entries (bmh bmp)]")
      (auto simp: spec_find_free_items_def)
  from first_free_entry_Some[OF ffe]
  obtain k where k: "k < bmp_entries (bmh bmp)" and e: "meta (vol s) (entry_pos bmp k) = Some e"
    by auto
  from bitmap_wf_entry[OF wf k e]
  have posn: "pos (mdh e) = entry_pos bmp k" and idk: "bme_id e = of_nat k"
    and len: "length (bme_items e) = n"
    by (simp_all add: n_def)
  have free: "lck (mdh e) = Lock_free"
    using f' r1 ffe e posn
    by (auto simp: spec_find_free_items_def lock_region_def split: if_splits)
  let ?m = "(mdh e)\<lparr>lck := Lock_ours\<rparr>"
  have e1: "e1 = e\<lparr>mdh := ?m\<rparr>"
    and v1: "v1 = (vol s)\<lparr>meta := (meta (vol s))(entry_pos bmp k \<mapsto> e\<lparr>mdh := ?m\<rparr>)\<rparr>"
    using f' ffe e posn free
    by (auto simp: spec_find_free_items_def lock_region_def Let_def)
  \<comment> \<open>the item\<close>
  obtain i where ffi: "first_free_item (bme_items e) = Some i"
    using ai r2 e1 by (cases "first_free_item (bme_items e)")
      (auto simp: spec_calls_def spec_alloc_item_def)
  from first_free_item_Some[OF ffi] len have i: "i < n" by simp
  have e2: "e2 = e\<lparr>mdh := ?m, bme_items := (bme_items e)[i := True]\<rparr>" and item: "item = of_nat i"
    using ai e1 ffi by (auto simp: spec_calls_def spec_alloc_item_def)
  \<comment> \<open>the result\<close>
  have blk: "blk = VMFS_BLK_FB_BUILD h (of_nat k * items_per_bitmap_entry (bmh bmp) + of_nat i)"
    using tr alloc r2 by (simp add: alloc_fb_id e2 item idk)
  have "vol s1 = spec_metadata_unlock (spec_bme_update v1 fs e2) fs (mdh e2)"
    using tr alloc r2 by (auto simp: spec_calls_def)
  then have "meta (vol s1) (entry_pos bmp k) = Some (e\<lparr>bme_items := (bme_items e)[i := True]\<rparr>)"
    using free posn
    by (simp add: e2 v1 spec_metadata_unlock_def spec_bme_update_def unlock_after_lock)
  with k i e free blk show ?thesis by blast
qed

subsection \<open>The small volume\<close>

lemma demo_sbc_full: "bitmap_full demo_vol (sbc demo_fs)"
  by (simp add: bitmap_full_def entry_pos_def free_items_def demo_defs upt_conv_Cons)

lemma demo_sbc_search: "spec_find_free_items demo_vol (sbc demo_fs) 1 = (- 1, no_entry, demo_vol)"
  by (rule spec_search_full[OF demo_sbc_full])

lemma demo_fbb_search:
  "spec_find_free_items demo_vol (fbb demo_fs) 1 =
     (0, demo_entry 1 Lock_ours 1 [True, False, True, False],
      demo_vol\<lparr>meta := (meta demo_vol)(1 \<mapsto> demo_entry 1 Lock_ours 1 [True, False, True, False])\<rparr>)"
  by (simp add: spec_defs demo_defs upt_conv_Cons Let_def)

lemma demo_fbb_alloc_item:
  "spec_alloc_item (demo_entry 1 Lock_ours 1 [True, False, True, False]) =
     (0, demo_entry 1 Lock_ours 1 [True, True, True, False], 1)"
  by (simp add: spec_defs demo_defs)

lemma demo_fbb_alloc:
  "fst (vmfs_block_alloc spec_calls spec_macros demo_fs 1 out0 demo_sys) = 0"
  "fst (snd (vmfs_block_alloc spec_calls spec_macros demo_fs 1 out0 demo_sys)) = pack_fb 5"
proof -
  have sel: "alloc_bitmap spec_macros demo_fs 1 = Some (fbb demo_fs)"
    by (simp add: alloc_bitmap_def spec_macros_def)
  have f: "vmfs_bitmap_find_free_items spec_calls (vol demo_sys) (fbb demo_fs) 1 =
     (0, demo_entry 1 Lock_ours 1 [True, False, True, False],
      demo_vol\<lparr>meta := (meta demo_vol)(1 \<mapsto> demo_entry 1 Lock_ours 1 [True, False, True, False])\<rparr>)"
    using demo_fbb_search by (simp add: spec_calls_def demo_sys_def)
  have a: "vmfs_bitmap_alloc_item spec_calls (demo_entry 1 Lock_ours 1 [True, False, True, False]) =
     (0, demo_entry 1 Lock_ours 1 [True, True, True, False], 1)"
    using demo_fbb_alloc_item by (simp add: spec_calls_def)
  have b: "alloc_blk_id spec_macros (fbb demo_fs) 1 (demo_entry 1 Lock_ours 1 [True, True, True, False]) 1 x
     = pack_fb 5" for x
    by (simp add: alloc_blk_id_def spec_macros_def demo_defs)
  show "fst (vmfs_block_alloc spec_calls spec_macros demo_fs 1 out0 demo_sys) = 0"
    using alloc_trace[OF sel f _ a, of out0] by simp
  show "fst (snd (vmfs_block_alloc spec_calls spec_macros demo_fs 1 out0 demo_sys)) = pack_fb 5"
    using alloc_trace[OF sel f _ a, of out0] b by simp
qed

lemma demo_pb_resolve:
  "vmfs_block_get_bitmap_info spec_macros demo_fs (pack_id 3 0 1) (locals0 demo_fs)
     = (0, pbc demo_fs, 0, 1)"
  using resolve_PB[OF spec_tags_distinct spec_in_range_PB[of 0 1], of demo_fs "locals0 demo_fs"]
  by (simp add: spec_macros_def)

lemma demo_pb_entry:
  "vmfs_bitmap_get_entry spec_calls (vol demo_sys) (pbc demo_fs) 0 1 =
     (0, demo_entry 200 Lock_foreign 0 [True, False, False, False])"
  by (simp add: spec_defs demo_defs)

lemma demo_pb_lock:
  "vmfs_metadata_lock spec_calls (vol demo_sys) demo_fs
       (pos (mdh (demo_entry 200 Lock_foreign 0 [True, False, False, False])))
       (VMFS_BITMAP_ENTRY_SIZE spec_macros)
       (mdh (demo_entry 200 Lock_foreign 0 [True, False, False, False]))
     = (- 1, \<lparr> pos = 200, lck = Lock_foreign \<rparr>, demo_vol)"
  by (simp add: spec_defs demo_defs)

lemma demo_pb_set:
  "vmfs_bitmap_set_item_status spec_calls (bmh (pbc demo_fs))
       ((demo_entry 200 Lock_foreign 0 [True, False, False, False])
          \<lparr>mdh := \<lparr> pos = 200, lck = Lock_foreign \<rparr>\<rparr>) 0 1 1
     = (0, demo_entry 200 Lock_foreign 0 [True, True, False, False])"
  by (simp add: spec_defs demo_defs)

lemma demo_fb_resolve:
  "vmfs_block_get_bitmap_info spec_macros demo_fs (pack_fb 5) (locals0 demo_fs)
     = (0, fbb demo_fs, 0, 5)"
  using resolve_FB[OF spec_in_range_FB[of 5], of demo_fs "locals0 demo_fs"]
  by (simp add: spec_macros_def)

lemma demo_fb_entry:
  "vmfs_bitmap_get_entry spec_calls (vol demo_sys) (fbb demo_fs) 0 5 =
     (0, demo_entry 1 Lock_free 1 [True, False, True, False])"
  by (simp add: spec_defs demo_defs)

lemma demo_fb_lock:
  "vmfs_metadata_lock spec_calls (vol demo_sys) demo_fs
       (pos (mdh (demo_entry 1 Lock_free 1 [True, False, True, False])))
       (VMFS_BITMAP_ENTRY_SIZE spec_macros)
       (mdh (demo_entry 1 Lock_free 1 [True, False, True, False]))
     = (0, \<lparr> pos = 1, lck = Lock_ours \<rparr>,
        demo_vol\<lparr>meta := (meta demo_vol)(1 \<mapsto> demo_entry 1 Lock_ours 1 [True, False, True, False])\<rparr>)"
  by (simp add: spec_defs demo_defs Let_def)

lemma demo_fb_set:
  "vmfs_bitmap_set_item_status spec_calls (bmh (fbb demo_fs))
       ((demo_entry 1 Lock_free 1 [True, False, True, False])
          \<lparr>mdh := \<lparr> pos = 1, lck = Lock_ours \<rparr>\<rparr>) 0 5 1
     = (0, demo_entry 1 Lock_ours 1 [True, True, True, False])"
  by (simp add: spec_defs demo_defs)

lemma demo_fbb_sel: "alloc_bitmap spec_macros demo_fs 1 = Some (fbb demo_fs)"
  by (simp add: alloc_bitmap_def spec_macros_def)

lemma demo_fbb_search':
  "vmfs_bitmap_find_free_items spec_calls (vol demo_sys) (fbb demo_fs) 1 =
     (0, demo_entry 1 Lock_ours 1 [True, False, True, False],
      demo_vol\<lparr>meta := (meta demo_vol)(1 \<mapsto> demo_entry 1 Lock_ours 1 [True, False, True, False])\<rparr>)"
  using demo_fbb_search by (simp add: spec_calls_def demo_sys_def)

lemma demo_fbb_alloc_item':
  "vmfs_bitmap_alloc_item spec_calls (demo_entry 1 Lock_ours 1 [True, False, True, False]) =
     (0, demo_entry 1 Lock_ours 1 [True, True, True, False], 1)"
  using demo_fbb_alloc_item by (simp add: spec_calls_def)

lemma demo_fb_set_same:
  "vmfs_bitmap_set_item_status spec_calls (bmh (fbb demo_fs))
       ((demo_entry 1 Lock_free 1 [True, False, True, False])
          \<lparr>mdh := \<lparr> pos = 1, lck = Lock_ours \<rparr>\<rparr>) 0 5 0
     = (- 1, demo_entry 1 Lock_ours 1 [True, False, True, False])"
  by (simp add: spec_defs demo_defs)

lemma demo_reject_search:
  "vmfs_bitmap_find_free_items reject_calls (vol demo_sys) (fbb demo_fs) 1 =
     (0, demo_entry 1 Lock_ours 1 [True, False, True, False],
      demo_vol\<lparr>meta := (meta demo_vol)(1 \<mapsto> demo_entry 1 Lock_ours 1 [True, False, True, False])\<rparr>)"
  using demo_fbb_search' by (simp add: reject_calls_def)

lemma demo_reject_alloc_item:
  "vmfs_bitmap_alloc_item reject_calls (demo_entry 1 Lock_ours 1 [True, False, True, False]) =
     (- 1, demo_entry 1 Lock_ours 1 [True, False, True, False], 0)"
  by (simp add: reject_calls_def)

lemma demo_locked_meta:
  "meta (vmfs_metadata_unlock spec_calls
           (demo_vol\<lparr>meta := (meta demo_vol)(1 \<mapsto> demo_entry 1 Lock_ours 1 bs)\<rparr>) demo_fs
           \<lparr> pos = 1, lck = Lock_ours \<rparr>) 1
     = Some (demo_entry 1 Lock_free 1 bs)"
  by (simp add: spec_calls_def spec_metadata_unlock_def demo_entry_def)

lemma demo_updated_meta:
  "meta (vmfs_metadata_unlock spec_calls
           (vmfs_bme_update spec_calls
              (demo_vol\<lparr>meta := (meta demo_vol)(1 \<mapsto> demo_entry 1 Lock_ours 1 bs)\<rparr>) demo_fs
              (demo_entry 1 Lock_ours 1 bs')) demo_fs
           \<lparr> pos = 1, lck = Lock_ours \<rparr>) 1
     = Some (demo_entry 1 Lock_free 1 bs')"
  by (simp add: spec_calls_def spec_metadata_unlock_def spec_bme_update_def demo_entry_def)

lemma reject_calls_unlock: "vmfs_metadata_unlock reject_calls = vmfs_metadata_unlock spec_calls"
  by (simp add: reject_calls_def)

lemma demo_fb_item: "VMFS_BLK_FB_ITEM spec_macros (pack_fb 5) = 5"
  using spec_in_range_FB[of 5] by (simp add: in_range_def spec_macros_def)

lemma demo_fb_tag: "VMFS_BLK_TYPE spec_macros (pack_fb 5) = VMFS_BLK_TYPE_FB spec_macros"
  using spec_in_range_FB[of 5] by (simp add: in_range_def spec_macros_def)

lemma demo_short_second_write:
  "fst (vmfs_fs_write spec_calls
          (vol_after spec_calls demo_fs 5 (replicate 512 0) 0 1 (vol demo_short_sys))
          demo_fs 5 (512 * int 1) (replicate 512 0)) = 488"
proof -
  have w: "vmfs_fs_write spec_calls = spec_fs_write" by (simp add: spec_calls_def)
  have l0: "length (blocks (vol demo_short_sys) 5) = 1000"
    by (simp add: demo_short_sys_def)
  have l1: "length (blocks (snd (spec_fs_write (vol demo_short_sys) demo_fs 5 0 (replicate 512 0))) 5)
      = 1000"
    using spec_fs_write_fits(2)[of 0 "replicate 512 0" "vol demo_short_sys" 5 demo_fs] l0 by simp
  show ?thesis
    using spec_fs_write_result
      [of 512 "snd (spec_fs_write (vol demo_short_sys) demo_fs 5 0 (replicate 512 0))" 5
          demo_fs "replicate 512 0"] l1
    by (simp add: w)
qed




lemma demo_fbb_wf: "bitmap_wf (fbb demo_fs) (vol demo_sys)"
  by (simp add: bitmap_wf_def entry_wf_def entry_pos_def demo_defs upt_conv_Cons)

lemma demo_fbb_range:
  "unat a < bmp_entries (bmh (fbb demo_fs)) * unat (items_per_bitmap_entry (bmh (fbb demo_fs)))
     \<Longrightarrow> in_range spec_macros (FB a)"
  by (rule spec_in_range_FB) (simp add: demo_defs)

section \<open>The address scheme\<close>

text \<open>
  C3: for each of the four block classes and for all coordinates in range,
  resolving the identifier that the builder of the class makes yields the
  bitmap of the class and the coordinates themselves; for a File Block the
  entry is 0 and the item is the flat index. The builders and the decoders are
  macros of a header that is not among the sources, so the header is that of any
  well-formed layout of bit fields, whatever the positions and the widths of
  the fields and the values of the tags, and the coordinates in range are those
  that fit their fields: a File Block index resolves to the File Block bitmap,
  entry 0 and the index, and an entry and an item of a Sub-Block, a Pointer
  Block or a File Descriptor resolve to the bitmap of that class, the entry
  and the item.
\<close>

theorem resolve_build_roundtrip:
  assumes "layout_ok L" "h = layout_macros L dio es"
  shows "(layout_range L (FB a) \<longrightarrow>
            vmfs_block_get_bitmap_info h fs (VMFS_BLK_FB_BUILD h a) outs = (0, fbb fs, 0, a)) \<and>
         (layout_range L (SB e i) \<longrightarrow>
            vmfs_block_get_bitmap_info h fs (VMFS_BLK_SB_BUILD h e i) outs = (0, sbc fs, e, i)) \<and>
         (layout_range L (PB e i) \<longrightarrow>
            vmfs_block_get_bitmap_info h fs (VMFS_BLK_PB_BUILD h e i) outs = (0, pbc fs, e, i)) \<and>
         (layout_range L (FD e i) \<longrightarrow>
            vmfs_block_get_bitmap_info h fs (VMFS_BLK_FD_BUILD h e i) outs = (0, fdc fs, e, i))"
proof -
  have d: "tags_distinct h"
    unfolding assms(2) by (rule layout_tags_distinct[OF assms(1)])
  have r: "layout_range L c \<Longrightarrow> in_range h c" for c
    unfolding assms(2) by (rule layout_in_range[OF assms(1)])
  show ?thesis
    using d r by (simp add: resolve_FB resolve_SB resolve_PB resolve_FD)
qed

theorem resolve_build_roundtrip_witness:
  "layout_ok spec_layout \<and> spec_macros = layout_macros spec_layout 512 1024 \<and>
   layout_range spec_layout (FB 5) \<and>
   vmfs_block_get_bitmap_info spec_macros demo_fs (VMFS_BLK_FB_BUILD spec_macros 5) (locals0 demo_fs)
     = (0, fbb demo_fs, 0, 5) \<and>
   layout_range spec_layout (SB 2 3) \<and>
   vmfs_block_get_bitmap_info spec_macros demo_fs (VMFS_BLK_SB_BUILD spec_macros 2 3) (locals0 demo_fs)
     = (0, sbc demo_fs, 2, 3) \<and>
   layout_range spec_layout (PB 2 3) \<and>
   vmfs_block_get_bitmap_info spec_macros demo_fs (VMFS_BLK_PB_BUILD spec_macros 2 3) (locals0 demo_fs)
     = (0, pbc demo_fs, 2, 3) \<and>
   layout_range spec_layout (FD 2 3) \<and>
   vmfs_block_get_bitmap_info spec_macros demo_fs (VMFS_BLK_FD_BUILD spec_macros 2 3) (locals0 demo_fs)
     = (0, fdc demo_fs, 2, 3)"
proof -
  have rng: "layout_range spec_layout (FB 5)" "layout_range spec_layout (SB 2 3)"
    "layout_range spec_layout (PB 2 3)" "layout_range spec_layout (FD 2 3)"
    by (simp_all add: spec_layout_def fits_def)
  note r = resolve_build_roundtrip[OF spec_layout_ok spec_macros_layout,
      of 5 demo_fs "locals0 demo_fs" 2 3]
  from r rng spec_layout_ok spec_macros_layout show ?thesis by blast
qed


section \<open>Unknown classes\<close>

text \<open>
  C6: for every 32-bit block identifier whose class tag is none of the four
  known ones, \<^verbatim>\<open>vmfs_block_get_bitmap_info\<close> fails (it returns \<open>-1\<close>, the
  error that the specification names UnknownBlockClass) and the three objects
  it writes through hold what they held before; and \<^verbatim>\<open>vmfs_block_alloc\<close>
  called with a class outside the four known ones fails in the same way with
  the state unchanged: no call was made, so no bitmap was searched or changed,
  and \<^verbatim>\<open>*blk_id\<close> holds what it held.
\<close>

theorem unknown_class_rejected:
  "(VMFS_BLK_TYPE h blk_id \<notin> known_classes h \<longrightarrow>
      vmfs_block_get_bitmap_info h fs blk_id outs = (- 1, outs)) \<and>
   (blk_type \<notin> known_classes h \<longrightarrow>
      vmfs_block_alloc cb h fs blk_type out s = (- 1, out, s))"
  by (simp add: known_classes_def vmfs_block_get_bitmap_info_def vmfs_block_alloc_def
      alloc_bitmap_def)

theorem unknown_class_rejected_witness:
  "VMFS_BLK_TYPE spec_macros 0xA0000005 \<notin> known_classes spec_macros \<and>
   vmfs_block_get_bitmap_info spec_macros demo_fs 0xA0000005 (locals0 demo_fs)
     = (- 1, locals0 demo_fs) \<and>
   7 \<notin> known_classes spec_macros \<and>
   vmfs_block_alloc spec_calls spec_macros demo_fs 7 0 demo_sys = (- 1, 0, demo_sys)"
  using unknown_class_rejected
    [of spec_macros "0xA0000005" demo_fs "locals0 demo_fs" 7 spec_calls 0 demo_sys]
  by (simp add: known_classes_def spec_macros_def)

section \<open>Setting the status of a block\<close>

text \<open>
  C1: if acquiring the Metadata Lock fails, \<^verbatim>\<open>vmfs_block_set_status\<close> should
  change nothing and return the failure. The code does not: the value it
  compares with \<open>-1\<close> is the negation of what the lock returned, which is 0 or
  1, so the test never fires (\<open>c_not_never\<close>). When the lock returns \<open>-1\<close> and the
  bitmap module accepts the change, the function changes the status, writes
  the entry to the volume, unlocks and returns 0.
\<close>

theorem set_status_ignores_lock_failure:
  assumes "vmfs_block_get_bitmap_info h fs blk_id (locals0 fs) = (r0, bmp, be, bi)" "r0 \<noteq> - 1"
    and "vmfs_bitmap_get_entry cb (vol s) bmp be bi = (r1, e1)" "r1 \<noteq> - 1"
    and "vmfs_metadata_lock cb (vol s) fs (pos (mdh e1)) (VMFS_BITMAP_ENTRY_SIZE h) (mdh e1)
           = (- 1, m2, v2)"
    and "vmfs_bitmap_set_item_status cb (bmh bmp) (e1\<lparr>mdh := m2\<rparr>) be bi status = (r3, e3)"
      "r3 \<noteq> - 1"
  shows "vmfs_block_set_status cb h fs blk_id status s =
           (0, \<lparr> vol = vmfs_metadata_unlock cb (vmfs_bme_update cb v2 fs e3) fs (mdh e3),
                 trace = trace s @
                   [Ev_get_entry bmp be bi, Ev_lock (pos (mdh e1)),
                    Ev_set_item_status (e1\<lparr>mdh := m2\<rparr>) be bi status,
                    Ev_bme_update e3, Ev_unlock (mdh e3)] \<rparr>)"
  using set_status_trace[OF assms(1-6)] assms(7) by simp

theorem set_status_ignores_lock_failure_witness:
  "fst (vmfs_metadata_lock spec_calls (vol demo_sys) demo_fs 200 1024
          \<lparr> pos = 200, lck = Lock_foreign \<rparr>) = - 1 \<and>
   fst (vmfs_block_set_status spec_calls spec_macros demo_fs (pack_id 3 0 1) 1 demo_sys) = 0 \<and>
   meta (vol (snd (vmfs_block_set_status spec_calls spec_macros demo_fs (pack_id 3 0 1) 1 demo_sys)))
     200 = Some (demo_entry 200 Lock_foreign 0 [True, True, False, False]) \<and>
   meta demo_vol 200 = Some (demo_entry 200 Lock_foreign 0 [True, False, False, False])"
proof -
  note r = set_status_ignores_lock_failure
    [OF demo_pb_resolve _ demo_pb_entry _ demo_pb_lock demo_pb_set]
  have "fst (vmfs_metadata_lock spec_calls (vol demo_sys) demo_fs 200 1024
          \<lparr> pos = 200, lck = Lock_foreign \<rparr>) = - 1"
    by (simp add: spec_defs demo_defs)
  moreover have "meta demo_vol 200 = Some (demo_entry 200 Lock_foreign 0 [True, False, False, False])"
    by (simp add: demo_defs)
  ultimately show ?thesis using r
    by (simp add: spec_defs demo_defs)
qed

text \<open>
  C2: in every run of \<^verbatim>\<open>vmfs_block_set_status\<close> in which the lock was
  acquired (the lock call returned 0), and in every run of
  \<^verbatim>\<open>vmfs_block_alloc\<close> in which the search found an entry (and so holds its
  lock), the function makes the calls listed and no other, whether the bitmap
  module accepts the change or rejects it: the events of the run unlock
  exactly one metadata header, that of the local entry, the unlock is the last
  event before the function returns, and the volume returned is the one that
  this unlock leaves. When the change is rejected the function returns \<open>-1\<close>,
  the entry is not written and the unlock is applied to the volume as the lock
  (or the search) left it; when it is accepted the function returns 0 and the
  unlock is applied to the volume after the entry was written.
\<close>

theorem lock_released_exactly_once:
  "(vmfs_block_get_bitmap_info h fs blk_id (locals0 fs) = (r0, bmp, be, bi) \<and> r0 \<noteq> - 1 \<and>
    vmfs_bitmap_get_entry cb (vol s) bmp be bi = (r1, e1) \<and> r1 \<noteq> - 1 \<and>
    vmfs_metadata_lock cb (vol s) fs (pos (mdh e1)) (VMFS_BITMAP_ENTRY_SIZE h) (mdh e1)
      = (0, m2, v2) \<and>
    vmfs_bitmap_set_item_status cb (bmh bmp) (e1\<lparr>mdh := m2\<rparr>) be bi status = (r3, e3) \<longrightarrow>
      vmfs_block_set_status cb h fs blk_id status s =
        (if r3 = - 1 then - 1 else 0,
         \<lparr> vol = vmfs_metadata_unlock cb
                   (if r3 = - 1 then v2 else vmfs_bme_update cb v2 fs e3) fs (mdh e3),
           trace = trace s @
             [Ev_get_entry bmp be bi, Ev_lock (pos (mdh e1)),
              Ev_set_item_status (e1\<lparr>mdh := m2\<rparr>) be bi status] @
             (if r3 = - 1 then [] else [Ev_bme_update e3]) @ [Ev_unlock (mdh e3)] \<rparr>) \<and>
      unlocks (new_events s (snd (vmfs_block_set_status cb h fs blk_id status s))) = [mdh e3] \<and>
      last (trace (snd (vmfs_block_set_status cb h fs blk_id status s))) = Ev_unlock (mdh e3)) \<and>
   (alloc_bitmap h fs blk_type = Some abmp \<and>
    vmfs_bitmap_find_free_items cb (vol t) abmp 1 = (q1, f1, w1) \<and> q1 \<noteq> - 1 \<and>
    vmfs_bitmap_alloc_item cb f1 = (q2, f2, item) \<longrightarrow>
      vmfs_block_alloc cb h fs blk_type out t =
        (if q2 = - 1 then - 1 else 0,
         if q2 = - 1 then out else alloc_blk_id h abmp blk_type f2 item out,
         \<lparr> vol = vmfs_metadata_unlock cb
                   (if q2 = - 1 then w1 else vmfs_bme_update cb w1 fs f2) fs (mdh f2),
           trace = trace t @
             [Ev_find_free_items abmp 1, Ev_alloc_item f1] @
             (if q2 = - 1 then [] else [Ev_bme_update f2]) @ [Ev_unlock (mdh f2)] \<rparr>) \<and>
      unlocks (new_events t (snd (snd (vmfs_block_alloc cb h fs blk_type out t)))) = [mdh f2] \<and>
      last (trace (snd (snd (vmfs_block_alloc cb h fs blk_type out t)))) = Ev_unlock (mdh f2))"
proof (intro conjI impI)
  assume a: "vmfs_block_get_bitmap_info h fs blk_id (locals0 fs) = (r0, bmp, be, bi) \<and> r0 \<noteq> - 1 \<and>
    vmfs_bitmap_get_entry cb (vol s) bmp be bi = (r1, e1) \<and> r1 \<noteq> - 1 \<and>
    vmfs_metadata_lock cb (vol s) fs (pos (mdh e1)) (VMFS_BITMAP_ENTRY_SIZE h) (mdh e1)
      = (0, m2, v2) \<and>
    vmfs_bitmap_set_item_status cb (bmh bmp) (e1\<lparr>mdh := m2\<rparr>) be bi status = (r3, e3)"
  then show r: "vmfs_block_set_status cb h fs blk_id status s =
           (if r3 = - 1 then - 1 else 0,
            \<lparr> vol = vmfs_metadata_unlock cb
                      (if r3 = - 1 then v2 else vmfs_bme_update cb v2 fs e3) fs (mdh e3),
              trace = trace s @
                [Ev_get_entry bmp be bi, Ev_lock (pos (mdh e1)),
                 Ev_set_item_status (e1\<lparr>mdh := m2\<rparr>) be bi status] @
                (if r3 = - 1 then [] else [Ev_bme_update e3]) @ [Ev_unlock (mdh e3)] \<rparr>)"
    by (elim conjE) (rule set_status_trace; assumption)
  show "unlocks (new_events s (snd (vmfs_block_set_status cb h fs blk_id status s))) = [mdh e3]"
    by (simp add: r)
  show "last (trace (snd (vmfs_block_set_status cb h fs blk_id status s))) = Ev_unlock (mdh e3)"
    by (simp add: r)
next
  assume a: "alloc_bitmap h fs blk_type = Some abmp \<and>
    vmfs_bitmap_find_free_items cb (vol t) abmp 1 = (q1, f1, w1) \<and> q1 \<noteq> - 1 \<and>
    vmfs_bitmap_alloc_item cb f1 = (q2, f2, item)"
  then show r: "vmfs_block_alloc cb h fs blk_type out t =
           (if q2 = - 1 then - 1 else 0,
            if q2 = - 1 then out else alloc_blk_id h abmp blk_type f2 item out,
            \<lparr> vol = vmfs_metadata_unlock cb
                      (if q2 = - 1 then w1 else vmfs_bme_update cb w1 fs f2) fs (mdh f2),
              trace = trace t @
                [Ev_find_free_items abmp 1, Ev_alloc_item f1] @
                (if q2 = - 1 then [] else [Ev_bme_update f2]) @ [Ev_unlock (mdh f2)] \<rparr>)"
    by (elim conjE) (rule alloc_trace; assumption)
  show "unlocks (new_events t (snd (snd (vmfs_block_alloc cb h fs blk_type out t)))) = [mdh f2]"
    by (simp add: r)
  show "last (trace (snd (snd (vmfs_block_alloc cb h fs blk_type out t)))) = Ev_unlock (mdh f2)"
    by (simp add: r)
qed

theorem lock_released_exactly_once_witness:
  "fst (vmfs_metadata_lock spec_calls (vol demo_sys) demo_fs 1 1024 \<lparr> pos = 1, lck = Lock_free \<rparr>) = 0 \<and>
   fst (vmfs_block_set_status spec_calls spec_macros demo_fs (pack_fb 5) 1 demo_sys) = 0 \<and>
   unlocks (new_events demo_sys
      (snd (vmfs_block_set_status spec_calls spec_macros demo_fs (pack_fb 5) 1 demo_sys)))
     = [\<lparr> pos = 1, lck = Lock_ours \<rparr>] \<and>
   meta (vol (snd (vmfs_block_set_status spec_calls spec_macros demo_fs (pack_fb 5) 1 demo_sys))) 1
     = Some (demo_entry 1 Lock_free 1 [True, True, True, False]) \<and>
   fst (vmfs_block_set_status spec_calls spec_macros demo_fs (pack_fb 5) 0 demo_sys) = - 1 \<and>
   trace (snd (vmfs_block_set_status spec_calls spec_macros demo_fs (pack_fb 5) 0 demo_sys))
     = [Ev_get_entry (fbb demo_fs) 0 5, Ev_lock 1,
        Ev_set_item_status (demo_entry 1 Lock_ours 1 [True, False, True, False]) 0 5 0,
        Ev_unlock \<lparr> pos = 1, lck = Lock_ours \<rparr>] \<and>
   unlocks (new_events demo_sys
      (snd (vmfs_block_set_status spec_calls spec_macros demo_fs (pack_fb 5) 0 demo_sys)))
     = [\<lparr> pos = 1, lck = Lock_ours \<rparr>] \<and>
   meta (vol (snd (vmfs_block_set_status spec_calls spec_macros demo_fs (pack_fb 5) 0 demo_sys))) 1
     = Some (demo_entry 1 Lock_free 1 [True, False, True, False]) \<and>
   fst (vmfs_bitmap_find_free_items spec_calls (vol demo_sys) (fbb demo_fs) 1) = 0 \<and>
   fst (vmfs_block_alloc spec_calls spec_macros demo_fs 1 0 demo_sys) = 0 \<and>
   unlocks (new_events demo_sys
      (snd (snd (vmfs_block_alloc spec_calls spec_macros demo_fs 1 0 demo_sys))))
     = [\<lparr> pos = 1, lck = Lock_ours \<rparr>] \<and>
   meta (vol (snd (snd (vmfs_block_alloc spec_calls spec_macros demo_fs 1 0 demo_sys)))) 1
     = Some (demo_entry 1 Lock_free 1 [True, True, True, False]) \<and>
   fst (vmfs_bitmap_find_free_items reject_calls (vol demo_sys) (fbb demo_fs) 1) = 0 \<and>
   fst (vmfs_bitmap_alloc_item reject_calls (demo_entry 1 Lock_ours 1 [True, False, True, False])) = - 1 \<and>
   fst (vmfs_block_alloc reject_calls spec_macros demo_fs 1 0 demo_sys) = - 1 \<and>
   trace (snd (snd (vmfs_block_alloc reject_calls spec_macros demo_fs 1 0 demo_sys)))
     = [Ev_find_free_items (fbb demo_fs) 1,
        Ev_alloc_item (demo_entry 1 Lock_ours 1 [True, False, True, False]),
        Ev_unlock \<lparr> pos = 1, lck = Lock_ours \<rparr>] \<and>
   unlocks (new_events demo_sys
      (snd (snd (vmfs_block_alloc reject_calls spec_macros demo_fs 1 0 demo_sys))))
     = [\<lparr> pos = 1, lck = Lock_ours \<rparr>] \<and>
   meta (vol (snd (snd (vmfs_block_alloc reject_calls spec_macros demo_fs 1 0 demo_sys)))) 1
     = Some (demo_entry 1 Lock_free 1 [True, False, True, False])"
proof -
  let ?e = "demo_entry 1 Lock_free 1 [True, False, True, False]"
  let ?l = "demo_entry 1 Lock_ours 1 [True, False, True, False]"
  let ?v = "demo_vol\<lparr>meta := (meta demo_vol)(1 \<mapsto> ?l)\<rparr>"
  have A: "vmfs_block_get_bitmap_info spec_macros demo_fs (pack_fb 5) (locals0 demo_fs)
        = (0, fbb demo_fs, 0, 5) \<and> (0::int) \<noteq> - 1 \<and>
      vmfs_bitmap_get_entry spec_calls (vol demo_sys) (fbb demo_fs) 0 5 = (0, ?e) \<and>
      (0::int) \<noteq> - 1 \<and>
      vmfs_metadata_lock spec_calls (vol demo_sys) demo_fs (pos (mdh ?e))
          (VMFS_BITMAP_ENTRY_SIZE spec_macros) (mdh ?e)
        = (0, \<lparr> pos = 1, lck = Lock_ours \<rparr>, ?v) \<and>
      vmfs_bitmap_set_item_status spec_calls (bmh (fbb demo_fs))
          (?e\<lparr>mdh := \<lparr> pos = 1, lck = Lock_ours \<rparr>\<rparr>) 0 5 1
        = (0, demo_entry 1 Lock_ours 1 [True, True, True, False])"
    using demo_fb_resolve demo_fb_entry demo_fb_lock demo_fb_set by simp
  have A': "vmfs_block_get_bitmap_info spec_macros demo_fs (pack_fb 5) (locals0 demo_fs)
        = (0, fbb demo_fs, 0, 5) \<and> (0::int) \<noteq> - 1 \<and>
      vmfs_bitmap_get_entry spec_calls (vol demo_sys) (fbb demo_fs) 0 5 = (0, ?e) \<and>
      (0::int) \<noteq> - 1 \<and>
      vmfs_metadata_lock spec_calls (vol demo_sys) demo_fs (pos (mdh ?e))
          (VMFS_BITMAP_ENTRY_SIZE spec_macros) (mdh ?e)
        = (0, \<lparr> pos = 1, lck = Lock_ours \<rparr>, ?v) \<and>
      vmfs_bitmap_set_item_status spec_calls (bmh (fbb demo_fs))
          (?e\<lparr>mdh := \<lparr> pos = 1, lck = Lock_ours \<rparr>\<rparr>) 0 5 0
        = (- 1, ?l)"
    using demo_fb_resolve demo_fb_entry demo_fb_lock demo_fb_set_same by simp
  have B: "alloc_bitmap spec_macros demo_fs 1 = Some (fbb demo_fs) \<and>
      vmfs_bitmap_find_free_items spec_calls (vol demo_sys) (fbb demo_fs) 1 = (0, ?l, ?v) \<and>
      (0::int) \<noteq> - 1 \<and>
      vmfs_bitmap_alloc_item spec_calls ?l =
        (0, demo_entry 1 Lock_ours 1 [True, True, True, False], 1)"
    using demo_fbb_sel demo_fbb_search' demo_fbb_alloc_item' by simp
  have B': "alloc_bitmap spec_macros demo_fs 1 = Some (fbb demo_fs) \<and>
      vmfs_bitmap_find_free_items reject_calls (vol demo_sys) (fbb demo_fs) 1 = (0, ?l, ?v) \<and>
      (0::int) \<noteq> - 1 \<and>
      vmfs_bitmap_alloc_item reject_calls ?l = (- 1, ?l, 0)"
    using demo_fbb_sel demo_reject_search demo_reject_alloc_item by simp
  note a = lock_released_exactly_once[THEN conjunct1, rule_format, OF A]
  note a' = lock_released_exactly_once[THEN conjunct1, rule_format, OF A']
  note b = lock_released_exactly_once[THEN conjunct2, rule_format, OF B, of 0]
  note b' = lock_released_exactly_once[THEN conjunct2, rule_format, OF B', of 0]
  have m: "mdh (demo_entry 1 Lock_ours 1 bs) = \<lparr> pos = 1, lck = Lock_ours \<rparr>" for bs
    by (simp add: demo_entry_def)
  have tr: "trace demo_sys = []" by (simp add: demo_sys_def)
  have l1: "fst (vmfs_metadata_lock spec_calls (vol demo_sys) demo_fs 1 1024 \<lparr> pos = 1, lck = Lock_free \<rparr>) = 0"
    using demo_fb_lock by (simp add: demo_entry_def spec_macros_def)
  have l2: "fst (vmfs_bitmap_find_free_items spec_calls (vol demo_sys) (fbb demo_fs) 1) = 0"
    by (simp add: demo_fbb_search')
  have l3: "fst (vmfs_bitmap_find_free_items reject_calls (vol demo_sys) (fbb demo_fs) 1) = 0"
    by (simp add: demo_reject_search)
  have l4: "fst (vmfs_bitmap_alloc_item reject_calls ?l) = - 1"
    by (simp add: demo_reject_alloc_item)
  have s1: "fst (vmfs_block_set_status spec_calls spec_macros demo_fs (pack_fb 5) 1 demo_sys) = 0"
    using a by simp
  have s2: "unlocks (new_events demo_sys
      (snd (vmfs_block_set_status spec_calls spec_macros demo_fs (pack_fb 5) 1 demo_sys)))
     = [\<lparr> pos = 1, lck = Lock_ours \<rparr>]"
    using a by (simp add: m)
  have s3: "meta (vol (snd (vmfs_block_set_status spec_calls spec_macros demo_fs (pack_fb 5) 1 demo_sys))) 1
     = Some (demo_entry 1 Lock_free 1 [True, True, True, False])"
    using a by (simp add: m demo_updated_meta)
  have s4: "fst (vmfs_block_set_status spec_calls spec_macros demo_fs (pack_fb 5) 0 demo_sys) = - 1"
    using a' by simp
  have s5: "trace (snd (vmfs_block_set_status spec_calls spec_macros demo_fs (pack_fb 5) 0 demo_sys))
     = [Ev_get_entry (fbb demo_fs) 0 5, Ev_lock 1,
        Ev_set_item_status ?l 0 5 0, Ev_unlock \<lparr> pos = 1, lck = Lock_ours \<rparr>]"
    using a' by (simp add: m tr) (simp add: demo_entry_def)
  have s6: "unlocks (new_events demo_sys
      (snd (vmfs_block_set_status spec_calls spec_macros demo_fs (pack_fb 5) 0 demo_sys)))
     = [\<lparr> pos = 1, lck = Lock_ours \<rparr>]"
    using a' by (simp add: m)
  have s7: "meta (vol (snd (vmfs_block_set_status spec_calls spec_macros demo_fs (pack_fb 5) 0 demo_sys))) 1
     = Some ?e"
    using a' by (simp add: m demo_locked_meta)
  have t1: "fst (vmfs_block_alloc spec_calls spec_macros demo_fs 1 0 demo_sys) = 0"
    using b by simp
  have t2: "unlocks (new_events demo_sys
      (snd (snd (vmfs_block_alloc spec_calls spec_macros demo_fs 1 0 demo_sys))))
     = [\<lparr> pos = 1, lck = Lock_ours \<rparr>]"
    using b by (simp add: m)
  have t3: "meta (vol (snd (snd (vmfs_block_alloc spec_calls spec_macros demo_fs 1 0 demo_sys)))) 1
     = Some (demo_entry 1 Lock_free 1 [True, True, True, False])"
    using b by (simp add: m demo_updated_meta)
  have t4: "fst (vmfs_block_alloc reject_calls spec_macros demo_fs 1 0 demo_sys) = - 1"
    using b' by simp
  have t5: "trace (snd (snd (vmfs_block_alloc reject_calls spec_macros demo_fs 1 0 demo_sys)))
     = [Ev_find_free_items (fbb demo_fs) 1, Ev_alloc_item ?l,
        Ev_unlock \<lparr> pos = 1, lck = Lock_ours \<rparr>]"
    using b' by (simp add: m tr)
  have t6: "unlocks (new_events demo_sys
      (snd (snd (vmfs_block_alloc reject_calls spec_macros demo_fs 1 0 demo_sys))))
     = [\<lparr> pos = 1, lck = Lock_ours \<rparr>]"
    using b' by (simp add: m)
  have t7: "meta (vol (snd (snd (vmfs_block_alloc reject_calls spec_macros demo_fs 1 0 demo_sys)))) 1
     = Some ?e"
    using b' by (simp add: m reject_calls_unlock demo_locked_meta)
  from l1 s1 s2 s3 s4 s5 s6 s7 l2 t1 t2 t3 l3 l4 t4 t5 t6 t7 show ?thesis
    by (intro conjI)
qed


section \<open>Allocating a block\<close>

text \<open>
  C5: for each of the four classes, if the search for a free item fails,
  \<^verbatim>\<open>vmfs_block_alloc\<close> fails (it returns \<open>-1\<close>, the error that the
  specification names NoSpaceAvailable) and the search is the only call it
  made: no item was marked, no entry was written, nothing was unlocked, the
  volume is the one the search left and \<^verbatim>\<open>*blk_id\<close> holds what it held.
  The search belongs to the bitmap module; with the search of the
  specification, a bitmap with no free item in any entry makes it fail and
  leaves the volume as it was, so that every bitmap entry is unchanged.
\<close>

theorem alloc_no_space:
  assumes "alloc_bitmap h fs blk_type = Some bmp"
  shows "(fst (vmfs_bitmap_find_free_items cb (vol s) bmp 1) = - 1 \<longrightarrow>
            vmfs_block_alloc cb h fs blk_type out s =
              (- 1, out,
               \<lparr> vol = snd (snd (vmfs_bitmap_find_free_items cb (vol s) bmp 1)),
                 trace = trace s @ [Ev_find_free_items bmp 1] \<rparr>)) \<and>
         (bitmap_full (vol t) bmp \<longrightarrow>
            vmfs_block_alloc spec_calls h fs blk_type out t =
              (- 1, out, \<lparr> vol = vol t, trace = trace t @ [Ev_find_free_items bmp 1] \<rparr>))"
proof (intro conjI impI)
  assume "fst (vmfs_bitmap_find_free_items cb (vol s) bmp 1) = - 1"
  then show "vmfs_block_alloc cb h fs blk_type out s =
      (- 1, out,
       \<lparr> vol = snd (snd (vmfs_bitmap_find_free_items cb (vol s) bmp 1)),
         trace = trace s @ [Ev_find_free_items bmp 1] \<rparr>)"
    using assms
    by (cases "vmfs_bitmap_find_free_items cb (vol s) bmp 1")
      (simp add: vmfs_block_alloc_def call_defs)
next
  assume "bitmap_full (vol t) bmp"
  then have "vmfs_bitmap_find_free_items spec_calls (vol t) bmp 1 = (- 1, no_entry, vol t)"
    by (simp add: spec_calls_def spec_search_full)
  then show "vmfs_block_alloc spec_calls h fs blk_type out t =
      (- 1, out, \<lparr> vol = vol t, trace = trace t @ [Ev_find_free_items bmp 1] \<rparr>)"
    using assms by (simp add: vmfs_block_alloc_def call_defs)
qed

theorem alloc_no_space_witness:
  "alloc_bitmap spec_macros demo_fs 2 = Some (sbc demo_fs) \<and>
   fst (vmfs_bitmap_find_free_items spec_calls (vol demo_sys) (sbc demo_fs) 1) = - 1 \<and>
   bitmap_full (vol demo_sys) (sbc demo_fs) \<and>
   vmfs_block_alloc spec_calls spec_macros demo_fs 2 0 demo_sys =
     (- 1, 0, \<lparr> vol = demo_vol, trace = [Ev_find_free_items (sbc demo_fs) 1] \<rparr>)"
proof -
  have sel: "alloc_bitmap spec_macros demo_fs 2 = Some (sbc demo_fs)"
    by (simp add: alloc_bitmap_def spec_macros_def)
  have search: "vmfs_bitmap_find_free_items spec_calls (vol demo_sys) (sbc demo_fs) 1
      = (- 1, no_entry, demo_vol)"
    using demo_sbc_search by (simp add: spec_calls_def demo_sys_def)
  then have f: "fst (vmfs_bitmap_find_free_items spec_calls (vol demo_sys) (sbc demo_fs) 1) = - 1"
    by simp
  have full: "bitmap_full (vol demo_sys) (sbc demo_fs)"
    using demo_sbc_full by (simp add: demo_sys_def)
  note a = alloc_no_space[OF sel, THEN conjunct1, rule_format, OF f, of 0]
  note b = alloc_no_space[OF sel, THEN conjunct2, rule_format, OF full, of 0]
  from a b search sel f full show ?thesis
    by (simp add: demo_sys_def)
qed

text \<open>
  C10: whenever \<^verbatim>\<open>vmfs_block_alloc\<close> returns 0, the class was one of the four
  known ones, \<^verbatim>\<open>*blk_id\<close> was assigned (it holds the same identifier
  whatever it held before the call), the identifier is the one the builder of
  the requested class makes, and its class tag is the requested class, given
  that the builders of the absent header put the tag of their class into the
  identifiers they make.
\<close>

theorem alloc_success_assigns_id:
  assumes "builders_keep_tag h" "vmfs_block_alloc cb h fs blk_type out0 s = (0, out, s')"
  shows "blk_type \<in> known_classes h \<and>
         (\<exists>c. out = build h c \<and> class_tag h c = blk_type) \<and>
         VMFS_BLK_TYPE h out = blk_type \<and>
         (\<forall>out1. vmfs_block_alloc cb h fs blk_type out1 s = (0, out, s'))"
proof -
  from alloc_success_cases[OF assms(2)]
  obtain bmp e item where sel: "alloc_bitmap h fs blk_type = Some bmp"
    and all: "\<And>b1. vmfs_block_alloc cb h fs blk_type b1 s
                = (0, alloc_blk_id h bmp blk_type e item b1, s')"
    by blast
  from sel have known: "blk_type \<in> known_classes h"
    by (auto simp: alloc_bitmap_def known_classes_def split: if_splits)
  from all[of out0] assms(2) have b: "out = alloc_blk_id h bmp blk_type e item out0" by simp
  from alloc_blk_id_build[OF sel, of bmp e item out0] b
  obtain c where c: "out = build h c" "class_tag h c = blk_type" by auto
  with assms(1) have "VMFS_BLK_TYPE h out = blk_type" by (simp add: builders_keep_tag_def)
  moreover have "vmfs_block_alloc cb h fs blk_type b1 s = (0, out, s')" for b1
    using all[of b1] alloc_blk_id_indep[OF sel, of bmp e item b1 out0] b by simp
  ultimately show ?thesis using c known by blast
qed

theorem alloc_success_assigns_id_witness:
  "builders_keep_tag spec_macros \<and>
   fst (vmfs_block_alloc spec_calls spec_macros demo_fs 1 0 demo_sys) = 0 \<and>
   fst (snd (vmfs_block_alloc spec_calls spec_macros demo_fs 1 0 demo_sys)) = pack_fb 5 \<and>
   VMFS_BLK_TYPE spec_macros (pack_fb 5) = 1 \<and>
   fst (snd (vmfs_block_alloc spec_calls spec_macros demo_fs 1 77 demo_sys)) = pack_fb 5"
proof -
  have e: "vmfs_block_alloc spec_calls spec_macros demo_fs 1 0 demo_sys =
      (0, pack_fb 5, snd (snd (vmfs_block_alloc spec_calls spec_macros demo_fs 1 0 demo_sys)))"
    by (metis demo_fbb_alloc prod.collapse)
  note r = alloc_success_assigns_id[OF spec_builders_keep_tag e]
  from r have t: "VMFS_BLK_TYPE spec_macros (pack_fb 5) = 1" by blast
  from r have "vmfs_block_alloc spec_calls spec_macros demo_fs 1 77 demo_sys =
      (0, pack_fb 5, snd (snd (vmfs_block_alloc spec_calls spec_macros demo_fs 1 0 demo_sys)))"
    by blast
  then have "fst (snd (vmfs_block_alloc spec_calls spec_macros demo_fs 1 77 demo_sys)) = pack_fb 5"
    by simp
  with t spec_builders_keep_tag demo_fbb_alloc[of 0] show ?thesis by blast
qed

text \<open>
  C4: with the bitmap codec, the lock and the volume modelled from the
  specification, on a well-formed File Block bitmap whose flat indexes are in
  range of the File Block macros: after \<^verbatim>\<open>vmfs_block_alloc(fs, FB, &id)\<close>
  returned 0, \<^verbatim>\<open>vmfs_block_get_status(fs, id)\<close> returns 1 (Allocated); then
  \<^verbatim>\<open>vmfs_block_free(fs, id)\<close> returns 0, and after it
  \<^verbatim>\<open>vmfs_block_get_status(fs, id)\<close> returns 0 (Free).
\<close>

theorem alloc_status_free_status:
  assumes wf: "bitmap_wf (fbb fs) (vol s)"
    and rng: "\<And>a. unat a < bmp_entries (bmh (fbb fs)) * unat (items_per_bitmap_entry (bmh (fbb fs)))
                \<Longrightarrow> in_range h (FB a)"
    and alloc: "vmfs_block_alloc spec_calls h fs (VMFS_BLK_TYPE_FB h) out0 s = (0, blk, s1)"
  shows "fst (vmfs_block_get_status spec_calls h fs blk s1) = 1 \<and>
         (\<exists>s2. vmfs_block_free spec_calls h fs blk s1 = (0, s2) \<and>
               fst (vmfs_block_get_status spec_calls h fs blk s2) = 0)"
proof -
  let ?bmp = "fbb fs"
  let ?ipe = "items_per_bitmap_entry (bmh ?bmp)"
  let ?n = "unat ?ipe"
  from spec_alloc_fb[OF wf alloc]
  obtain k i e where k: "k < bmp_entries (bmh ?bmp)" and i: "i < ?n"
    and e: "meta (vol s) (entry_pos ?bmp k) = Some e"
    and free: "lck (mdh e) = Lock_free"
    and blk: "blk = VMFS_BLK_FB_BUILD h (of_nat k * ?ipe + of_nat i)"
    and e1: "meta (vol s1) (entry_pos ?bmp k) = Some (e\<lparr>bme_items := (bme_items e)[i := True]\<rparr>)"
    by blast
  let ?a = "of_nat k * ?ipe + of_nat i :: u32"
  let ?e1 = "e\<lparr>bme_items := (bme_items e)[i := True]\<rparr>"
  let ?e2 = "?e1\<lparr>bme_items := (bme_items ?e1)[i := (0 \<noteq> (0::int))]\<rparr>"
  from bitmap_wf_entry[OF wf k e]
  have posn: "pos (mdh e) = entry_pos ?bmp k" and len: "length (bme_items e) = ?n"
    by simp_all
  have bound: "k * ?n + i < bmp_entries (bmh ?bmp) * ?n"
    by (rule bitmap_wf_fit[OF wf k i])
  have fit: "k * ?n + i < 2 ^ 32"
    using bound wf by (simp add: bitmap_wf_def)
  have n0: "0 < ?n" using i by simp
  have ua: "unat ?a = k * ?n + i" using fit n0 by (intro unat_flat)
  have inr: "in_range h (FB ?a)" using rng[of ?a] ua bound by simp
  \<comment> \<open>the status after the allocation\<close>
  have len1: "length (bme_items ?e1) = ?n" using len by simp
  have st1: "fst (vmfs_block_get_status spec_calls h fs blk s1) = 1"
    unfolding blk
    using spec_get_status_item[OF i k fit refl inr e1 len1] len i by simp
  \<comment> \<open>the block is freed\<close>
  have posn1: "pos (mdh ?e1) = entry_pos ?bmp k" using posn by simp
  have free1: "lck (mdh ?e1) = Lock_free" using free by simp
  have diff: "bme_items ?e1 ! i \<noteq> (0 \<noteq> (0::int))" using len i by simp
  from spec_set_status_item[OF i k fit refl inr e1 len1 posn1 free1 diff]
  obtain s2 where fr: "vmfs_block_free spec_calls h fs blk s1 = (0, s2)"
    and e2: "meta (vol s2) (entry_pos ?bmp k) = Some ?e2"
    unfolding blk vmfs_block_free_def by blast
  \<comment> \<open>the status after the block is freed\<close>
  have len2: "length (bme_items ?e2) = ?n" using len by simp
  have st2: "fst (vmfs_block_get_status spec_calls h fs blk s2) = 0"
    unfolding blk
    using spec_get_status_item[OF i k fit refl inr e2 len2] len i by simp
  from st1 fr st2 show ?thesis by blast
qed

theorem alloc_status_free_status_witness:
  "bitmap_wf (fbb demo_fs) (vol demo_sys) \<and>
   in_range spec_macros (FB 5) \<and>
   fst (vmfs_block_alloc spec_calls spec_macros demo_fs 1 0 demo_sys) = 0 \<and>
   fst (snd (vmfs_block_alloc spec_calls spec_macros demo_fs 1 0 demo_sys)) = pack_fb 5 \<and>
   fst (vmfs_block_get_status spec_calls spec_macros demo_fs (pack_fb 5)
          (snd (snd (vmfs_block_alloc spec_calls spec_macros demo_fs 1 0 demo_sys)))) = 1 \<and>
   fst (vmfs_block_free spec_calls spec_macros demo_fs (pack_fb 5)
          (snd (snd (vmfs_block_alloc spec_calls spec_macros demo_fs 1 0 demo_sys)))) = 0 \<and>
   fst (vmfs_block_get_status spec_calls spec_macros demo_fs (pack_fb 5)
          (snd (vmfs_block_free spec_calls spec_macros demo_fs (pack_fb 5)
             (snd (snd (vmfs_block_alloc spec_calls spec_macros demo_fs 1 0 demo_sys)))))) = 0"
proof -
  let ?s1 = "snd (snd (vmfs_block_alloc spec_calls spec_macros demo_fs 1 0 demo_sys))"
  have fb: "VMFS_BLK_TYPE_FB spec_macros = 1" by (simp add: spec_macros_def)
  have e: "vmfs_block_alloc spec_calls spec_macros demo_fs (VMFS_BLK_TYPE_FB spec_macros) 0 demo_sys
      = (0, pack_fb 5, ?s1)"
    unfolding fb by (metis demo_fbb_alloc prod.collapse)
  from alloc_status_free_status[OF demo_fbb_wf demo_fbb_range e]
  obtain s2 where st1: "fst (vmfs_block_get_status spec_calls spec_macros demo_fs (pack_fb 5) ?s1) = 1"
    and fr: "vmfs_block_free spec_calls spec_macros demo_fs (pack_fb 5) ?s1 = (0, s2)"
    and st2: "fst (vmfs_block_get_status spec_calls spec_macros demo_fs (pack_fb 5) s2) = 0"
    by blast
  from fr have fr0: "fst (vmfs_block_free spec_calls spec_macros demo_fs (pack_fb 5) ?s1) = 0"
    and fr1: "snd (vmfs_block_free spec_calls spec_macros demo_fs (pack_fb 5) ?s1) = s2"
    by simp_all
  have "in_range spec_macros (FB 5)" by (rule spec_in_range_FB) simp
  with demo_fbb_wf demo_fbb_alloc[of 0] st1 fr0 st2[folded fr1] show ?thesis by blast
qed

section \<open>The zeroizer\<close>

text \<open>
  C7: for every block identifier whose class tag is not the File Block tag,
  \<^verbatim>\<open>vmfs_block_zeroize_fb\<close> fails (it returns \<open>-1\<close>, the error that the
  specification names WrongBlockClass) with the state unchanged: it made no
  write, and the volume is as it was.
\<close>

theorem zeroize_wrong_class:
  "VMFS_BLK_TYPE h blk_id \<noteq> VMFS_BLK_TYPE_FB h \<Longrightarrow>
   vmfs_block_zeroize_fb cb h fs blk_id s = Some (- 1, s)"
  by (simp add: vmfs_block_zeroize_fb_def)

theorem zeroize_wrong_class_witness:
  "VMFS_BLK_TYPE spec_macros (build spec_macros (SB 0 1)) \<noteq> VMFS_BLK_TYPE_FB spec_macros \<and>
   vmfs_block_zeroize_fb spec_calls spec_macros demo_fs (build spec_macros (SB 0 1)) demo_sys
     = Some (- 1, demo_sys)"
  using zeroize_wrong_class
    [of spec_macros "build spec_macros (SB 0 1)" spec_calls demo_fs demo_sys]
  by (simp add: spec_macros_def pack_id_tag)

text \<open>
  C8: for a File Block identifier, a block size of 4096 and a chunk of 512
  bytes, \<^verbatim>\<open>vmfs_block_zeroize_fb\<close> makes exactly 8 writes of 512 zero bytes, at
  the offsets 0, 512, ..., 3584 of the block, and returns 0, when each of the
  8 writes returns 512; and when the first \<open>j\<close> writes return 512 and the next
  one returns fewer bytes, the function returns \<open>-1\<close> (TruncatedWrite in the
  words of the specification) with that write as its last: it made \<open>j + 1\<close>
  writes and no further one.
\<close>

theorem zeroize_4096_by_512:
  assumes "VMFS_BLK_TYPE h blk_id = VMFS_BLK_TYPE_FB h"
    and "M_DIO_BLK_SIZE h = 512" "vmfs_fs_get_blocksize fs = 4096"
    and "blk = VMFS_BLK_FB_ITEM h blk_id" "buf = replicate 512 0"
  shows "(writes_ok cb fs blk buf 0 8 (vol s) \<longrightarrow>
            vmfs_block_zeroize_fb cb h fs blk_id s =
              Some (0, \<lparr> vol = vol_after cb fs blk buf 0 8 (vol s),
                         trace = trace s @
                           [Ev_fs_write blk 0 buf, Ev_fs_write blk 512 buf,
                            Ev_fs_write blk 1024 buf, Ev_fs_write blk 1536 buf,
                            Ev_fs_write blk 2048 buf, Ev_fs_write blk 2560 buf,
                            Ev_fs_write blk 3072 buf, Ev_fs_write blk 3584 buf] \<rparr>)) \<and>
         (j < 8 \<and> writes_ok cb fs blk buf 0 j (vol s) \<and>
          fst (vmfs_fs_write cb (vol_after cb fs blk buf 0 j (vol s)) fs blk (512 * int j) buf) < 512
          \<longrightarrow>
            vmfs_block_zeroize_fb cb h fs blk_id s =
              Some (- 1,
                \<lparr> vol = snd (vmfs_fs_write cb (vol_after cb fs blk buf 0 j (vol s)) fs blk
                            (512 * int j) buf),
                  trace = trace s @
                    map (\<lambda>k. Ev_fs_write blk (512 * int k) buf) [0..<Suc j] \<rparr>))"
proof (intro conjI impI)
  have len: "length buf = 512" using assms(5) by simp
  have loop: "vmfs_block_zeroize_fb cb h fs blk_id s = zeroize_loop cb fs blk buf 4096 0 s"
    using zeroize_fb_loop[where cb=cb and fs=fs and s=s, OF assms(1)] assms(2-5) by simp
  {
    assume ok: "writes_ok cb fs blk buf 0 8 (vol s)"
    have n: "8 = chunks (4096 - 0) (length buf)" by (simp add: chunks_def len)
    have ev: "write_events blk buf 0 8 =
        [Ev_fs_write blk 0 buf, Ev_fs_write blk 512 buf,
         Ev_fs_write blk 1024 buf, Ev_fs_write blk 1536 buf,
         Ev_fs_write blk 2048 buf, Ev_fs_write blk 2560 buf,
         Ev_fs_write blk 3072 buf, Ev_fs_write blk 3584 buf]"
      by (simp add: eval_nat_numeral len)
    show "vmfs_block_zeroize_fb cb h fs blk_id s =
              Some (0, \<lparr> vol = vol_after cb fs blk buf 0 8 (vol s),
                         trace = trace s @
                           [Ev_fs_write blk 0 buf, Ev_fs_write blk 512 buf,
                            Ev_fs_write blk 1024 buf, Ev_fs_write blk 1536 buf,
                            Ev_fs_write blk 2048 buf, Ev_fs_write blk 2560 buf,
                            Ev_fs_write blk 3072 buf, Ev_fs_write blk 3584 buf] \<rparr>)"
      using zeroize_loop_all_written[OF _ ok n] loop ev len by simp
  }
  {
    assume a: "j < 8 \<and> writes_ok cb fs blk buf 0 j (vol s) \<and>
          fst (vmfs_fs_write cb (vol_after cb fs blk buf 0 j (vol s)) fs blk (512 * int j) buf) < 512"
    then have ok: "writes_ok cb fs blk buf 0 j (vol s)"
      and lt: "0 + int j * int (length buf) < 4096"
      and bad: "fst (vmfs_fs_write cb (vol_after cb fs blk buf 0 j (vol s)) fs blk
                  (0 + int j * int (length buf)) buf) \<noteq> int (length buf)"
      by (simp_all add: len mult.commute)
    have "zeroize_loop cb fs blk buf 4096 0 s =
        Some (- 1,
          \<lparr> vol = snd (vmfs_fs_write cb (vol_after cb fs blk buf 0 j (vol s)) fs blk
                      (0 + int j * int (length buf)) buf),
            trace = trace s @ write_events blk buf 0 (Suc j) \<rparr>)"
      using zeroize_loop_stops_at[OF _ ok lt bad] by simp
    then show "vmfs_block_zeroize_fb cb h fs blk_id s =
              Some (- 1,
                \<lparr> vol = snd (vmfs_fs_write cb (vol_after cb fs blk buf 0 j (vol s)) fs blk
                            (512 * int j) buf),
                  trace = trace s @
                    map (\<lambda>k. Ev_fs_write blk (512 * int k) buf) [0..<Suc j] \<rparr>)"
      using loop by (simp add: write_events_map len mult.commute del: write_events.simps upt_Suc)
  }
qed

theorem zeroize_4096_by_512_witness:
  "VMFS_BLK_TYPE spec_macros (pack_fb 5) = VMFS_BLK_TYPE_FB spec_macros \<and>
   M_DIO_BLK_SIZE spec_macros = 512 \<and> vmfs_fs_get_blocksize demo_fs = 4096 \<and>
   writes_ok spec_calls demo_fs 5 (replicate 512 0) 0 8 (vol demo_sys) \<and>
   map_option fst (vmfs_block_zeroize_fb spec_calls spec_macros demo_fs (pack_fb 5) demo_sys)
     = Some 0 \<and>
   map_option (length \<circ> trace \<circ> snd)
       (vmfs_block_zeroize_fb spec_calls spec_macros demo_fs (pack_fb 5) demo_sys)
     = Some 8 \<and>
   writes_ok spec_calls demo_fs 5 (replicate 512 0) 0 1 (vol demo_short_sys) \<and>
   fst (vmfs_fs_write spec_calls
          (vol_after spec_calls demo_fs 5 (replicate 512 0) 0 1 (vol demo_short_sys))
          demo_fs 5 (512 * int 1) (replicate 512 0)) < 512 \<and>
   map_option fst (vmfs_block_zeroize_fb spec_calls spec_macros demo_fs (pack_fb 5) demo_short_sys)
     = Some (- 1) \<and>
   map_option (trace \<circ> snd)
       (vmfs_block_zeroize_fb spec_calls spec_macros demo_fs (pack_fb 5) demo_short_sys)
     = Some [Ev_fs_write 5 0 (replicate 512 0), Ev_fs_write 5 512 (replicate 512 0)]"
proof -
  have c: "M_DIO_BLK_SIZE spec_macros = 512" by (simp add: spec_macros_def)
  have b: "vmfs_fs_get_blocksize demo_fs = 4096"
    by (simp add: vmfs_fs_get_blocksize_def demo_fs_def)
  have ok8: "writes_ok spec_calls demo_fs 5 (replicate 512 0) 0 8 (vol demo_sys)"
    by (rule spec_writes_ok) (simp_all add: demo_sys_def demo_vol_def)
  have ok1: "writes_ok spec_calls demo_fs 5 (replicate 512 0) 0 1 (vol demo_short_sys)"
    by (rule spec_writes_ok) (simp_all add: demo_short_sys_def)
  note short = demo_short_second_write
  have tr: "trace demo_short_sys = []" "trace demo_sys = []"
    by (simp_all add: demo_short_sys_def demo_sys_def)
  note t1 = zeroize_4096_by_512[OF demo_fb_tag c b demo_fb_item[symmetric] refl,
      THEN conjunct1, rule_format, OF ok8]
  have t2: "vmfs_block_zeroize_fb spec_calls spec_macros demo_fs (pack_fb 5) demo_short_sys =
      Some (- 1,
        \<lparr> vol = snd (vmfs_fs_write spec_calls
                    (vol_after spec_calls demo_fs 5 (replicate 512 0) 0 1 (vol demo_short_sys))
                    demo_fs 5 (512 * int 1) (replicate 512 0)),
          trace = trace demo_short_sys @
            map (\<lambda>k. Ev_fs_write 5 (512 * int k) (replicate 512 0)) [0..<Suc 1] \<rparr>)"
    using ok1 short
    by (intro zeroize_4096_by_512[OF demo_fb_tag c b demo_fb_item[symmetric] refl,
          THEN conjunct2, rule_format]) simp
  have "map_option (trace \<circ> snd)
       (vmfs_block_zeroize_fb spec_calls spec_macros demo_fs (pack_fb 5) demo_short_sys)
     = Some [Ev_fs_write 5 0 (replicate 512 0), Ev_fs_write 5 512 (replicate 512 0)]"
    using tr by (simp add: t2 upt_conv_Cons del: upt_Suc)
  moreover have "map_option fst
       (vmfs_block_zeroize_fb spec_calls spec_macros demo_fs (pack_fb 5) demo_short_sys)
     = Some (- 1)"
    by (simp add: t2)
  moreover have "map_option fst
       (vmfs_block_zeroize_fb spec_calls spec_macros demo_fs (pack_fb 5) demo_sys) = Some 0"
    "map_option (length \<circ> trace \<circ> snd)
       (vmfs_block_zeroize_fb spec_calls spec_macros demo_fs (pack_fb 5) demo_sys) = Some 8"
    using tr by (simp_all add: t1)
  ultimately show ?thesis using demo_fb_tag c b ok8 ok1 short by simp
qed




end
